theory Spec2Isabelle
  imports Complex_Main "HOL-Library.Char_ord" "HOL-Library.List_Lexorder"
begin

section \<open>JavaScript strings and numbers\<close>

text \<open>
  The pipeline is JavaScript. A page text is a JavaScript string, that is a sequence of
  UTF-16 code units, and \<open>length\<close> counts code units; a text is therefore a list of
  code-unit values. Identifiers of the program (document types, rule names, file names,
  log messages) are plain ASCII and are kept as HOL strings; the long dash of the log
  messages is written \<open>-\<close>.

  Numbers are IEEE doubles in the source. Scores and confidences are modelled as exact
  rationals; the concrete inputs evaluated below avoid values whose rounding sits on a
  half, where a double could round the other way.
\<close>

type_synonym jstext = "nat list"

text \<open>White space (\<open>\s\<close> and \<open>trim\<close>): TAB, LF, VT, FF, CR, space, no-break space, and the
  Unicode space separators, line separators and byte-order mark, all from U+1680 on.\<close>

definition js_ws :: "nat \<Rightarrow> bool" where
  "js_ws c = ((9 \<le> c \<and> c \<le> 13) \<or> c = 32 \<or> c = 160
              \<or> (5760 \<le> c \<and> (c = 5760 \<or> (8192 \<le> c \<and> c \<le> 8202) \<or> c = 8232 \<or> c = 8233
                   \<or> c = 8239 \<or> c = 8287 \<or> c = 12288 \<or> c = 65279)))"

definition js_trim :: "jstext \<Rightarrow> jstext" where
  "js_trim s = rev (dropWhile js_ws (rev (dropWhile js_ws s)))"

text \<open>\<open>s.split(/\s+/)\<close>: the pieces between maximal runs of white space, empty pieces at
  the two ends included.\<close>

fun split_ws_aux :: "bool \<Rightarrow> jstext \<Rightarrow> jstext \<Rightarrow> jstext list" where
  "split_ws_aux inws cur [] = [rev cur]"
| "split_ws_aux inws cur (c # cs) =
     (if js_ws c
      then (if inws then split_ws_aux True [] cs else rev cur # split_ws_aux True [] cs)
      else split_ws_aux False (c # cur) cs)"

definition js_split_ws :: "jstext \<Rightarrow> jstext list" where
  "js_split_ws s = split_ws_aux False [] s"

text \<open>\<open>s.split('\n')\<close> and \<open>xs.join(sep)\<close>.\<close>

fun split_aux :: "nat \<Rightarrow> jstext \<Rightarrow> jstext \<Rightarrow> jstext list" where
  "split_aux d cur [] = [rev cur]"
| "split_aux d cur (c # cs) =
     (if c = d then rev cur # split_aux d [] cs else split_aux d (c # cur) cs)"

definition js_split :: "nat \<Rightarrow> jstext \<Rightarrow> jstext list" where
  "js_split d s = split_aux d [] s"

fun js_join :: "'a list \<Rightarrow> 'a list list \<Rightarrow> 'a list" where
  "js_join sep [] = []"
| "js_join sep [x] = x"
| "js_join sep (x # y # zs) = x @ sep @ js_join sep (y # zs)"

text \<open>\<open>Math.round(x * 100) / 100\<close>, with \<open>Math.round\<close> rounding a half upwards.\<close>

definition js_round :: "rat \<Rightarrow> int" where
  "js_round x = \<lfloor>x + 1 / 2\<rfloor>"

definition round2 :: "rat \<Rightarrow> rat" where
  "round2 x = of_int (js_round (x * 100)) / 100"


section \<open>Word-level garbage score (quality-profiler.js)\<close>

text \<open>
  \<open>detectWordLevelGarbage\<close> returns 0 on short texts and on texts of fewer than five
  words; otherwise it adds up seven signals, worth 2, 2, 1, 2, 2, 2 and 2 points, and
  returns the points scored over the 13 points possible. The PJe footer stripper and
  the seven signals are regular-expression scans of the text; they are the parameters
  \<open>stripPJeFooter\<close> and \<open>signals\<close> (the value of the counter \<open>signals\<close> after signal 7).
\<close>

definition detectWordLevelGarbage ::
  "(jstext \<Rightarrow> jstext) \<Rightarrow> (jstext \<Rightarrow> jstext list \<Rightarrow> nat) \<Rightarrow> jstext \<Rightarrow> rat" where
  "detectWordLevelGarbage stripPJeFooter signals text =
     (if text = [] \<or> length (js_trim text) < 30 then 0
      else
        let cleanText = stripPJeFooter text;
            words = filter (\<lambda>w. length w > 0) (js_split_ws cleanText)
        in if length words < 5 then 0
           else of_nat (signals cleanText words) / 13)"


section \<open>OCR rotation retry and hybrid merge (ocr-router.js)\<close>

record page =
  page_number :: nat
  page_text :: jstext
  page_confidence :: rat
  page_method :: string
  page_empty :: bool
  rotation_applied :: "nat option"
  word_garbage_score :: "rat option"
  ocr_replaced :: "bool option"
  ocr_fallback_to_fp :: "bool option"



text \<open>
  The per-page body of the merge in \<open>extractHybrid\<close>: \<open>ocrPage\<close> is \<open>ocrMap.get\<close> of the
  page number, \<open>None\<close> when the page was not sent to OCR.
\<close>

definition mergePage :: "(jstext \<Rightarrow> rat) \<Rightarrow> page option \<Rightarrow> page \<Rightarrow> page" where
  "mergePage g ocrPage fp =
     (case ocrPage of
        None \<Rightarrow> fp\<lparr>ocr_replaced := Some False\<rparr>
      | Some op \<Rightarrow>
          if length (page_text op) > 0 then
            let ocrGarbage = (case word_garbage_score op of
                                Some s \<Rightarrow> s | None \<Rightarrow> g (page_text op));
                fpGarbage = g (page_text fp)
            in if ocrGarbage < fpGarbage
               then \<lparr>page_number = page_number fp,
                     page_text = page_text op,
                     page_confidence = (if ocrGarbage > 3 / 10 then 4 / 10 else page_confidence op),
                     page_method = page_method op,
                     page_empty = page_empty op,
                     rotation_applied = None,
                     word_garbage_score = Some (round2 ocrGarbage),
                     ocr_replaced = Some True,
                     ocr_fallback_to_fp = None\<rparr>
               else fp\<lparr>page_confidence := (if fpGarbage > 3 / 10 then 4 / 10 else page_confidence fp),
                       ocr_replaced := Some False,
                       ocr_fallback_to_fp := Some True,
                       word_garbage_score := Some (round2 fpGarbage)\<rparr>
          else fp\<lparr>ocr_replaced := Some False\<rparr>)"

text \<open>\<open>ocrMap\<close> is filled in the order of the OCR results, a later result replacing an
  earlier one of the same page number.\<close>

fun ocrMapGet :: "page list \<Rightarrow> nat \<Rightarrow> page option" where
  "ocrMapGet [] n = None"
| "ocrMapGet (r # rs) n =
     (case ocrMapGet rs n of
        Some r' \<Rightarrow> Some r'
      | None \<Rightarrow> if page_number r = n then Some r else None)"

definition mergedPages :: "(jstext \<Rightarrow> rat) \<Rightarrow> page list \<Rightarrow> page list \<Rightarrow> page list" where
  "mergedPages g ocrResults fastParsePages =
     map (\<lambda>fp. mergePage g (ocrMapGet ocrResults (page_number fp)) fp) fastParsePages"


section \<open>Page profiles and their aggregation (quality-profiler.js)\<close>

datatype noise = Low | Medium | High

datatype tier = TierA | TierB | TierC | TierD | TierF

definition getQualityTier :: "nat \<Rightarrow> tier" where
  "getQualityTier readabilityScore =
     (if readabilityScore \<ge> 80 then TierA
      else if readabilityScore \<ge> 60 then TierB
      else if readabilityScore \<ge> 40 then TierC
      else if readabilityScore \<ge> 20 then TierD
      else TierF)"

text \<open>The character class \<open>[\x20-\x7E\u00C0-\u024F]\<close> of \<open>calculateReadability\<close>.\<close>

definition printableLatin :: "nat \<Rightarrow> bool" where
  "printableLatin c = ((32 \<le> c \<and> c \<le> 126) \<or> (192 \<le> c \<and> c \<le> 591))"

text \<open>The four heuristics of \<open>calculateReadability\<close>: text density, word quality,
  printable ratio and line structure.\<close>

definition densityScore :: "rat \<Rightarrow> nat" where
  "densityScore charsPerPage =
     (if charsPerPage > 1500 then 30
      else if charsPerPage > 800 then 20
      else if charsPerPage > 300 then 10
      else 5)"

definition wordQualityScore :: "rat \<Rightarrow> nat" where
  "wordQualityScore avgWordLength =
     (if avgWordLength \<ge> 3 \<and> avgWordLength \<le> 8 then 25
      else if avgWordLength \<ge> 2 \<and> avgWordLength \<le> 12 then 15
      else 5)"

definition lineStructureScore :: "rat \<Rightarrow> nat" where
  "lineStructureScore avgLineLength =
     (if avgLineLength > 30 \<and> avgLineLength < 120 then 15
      else if avgLineLength > 10 then 8
      else 0)"

definition calculateReadability :: "jstext \<Rightarrow> nat \<Rightarrow> nat" where
  "calculateReadability text pageCount =
     (if text = [] \<or> length (js_trim text) = 0 then 0
      else
        let charCount = length text;
            wordCount = length (filter (\<lambda>w. w \<noteq> []) (js_split_ws text));
            avgWordLength = (of_nat charCount :: rat) / of_nat (max wordCount 1);
            charsPerPage = (of_nat charCount :: rat) / of_nat (max pageCount 1);
            asciiRatio = (of_nat (length (filter printableLatin text)) :: rat) / of_nat charCount;
            lines = filter (\<lambda>l. length (js_trim l) > 0) (js_split 10 text);
            avgLineLength = (of_nat charCount :: rat) / of_nat (max (length lines) 1)
        in min 100 (densityScore charsPerPage + wordQualityScore avgWordLength
                    + nat (js_round (asciiRatio * 30)) + lineStructureScore avgLineLength))"

text \<open>The characters that \<open>garbagePattern\<close> of \<open>detectNoiseLevel\<close> does not count: word
  characters, white space, Latin letters with diacritics and the listed punctuation.\<close>

definition garbageChar :: "nat \<Rightarrow> bool" where
  "garbageChar c =
     (\<not> ((48 \<le> c \<and> c \<le> 57) \<or> (65 \<le> c \<and> c \<le> 90) \<or> (97 \<le> c \<and> c \<le> 122) \<or> c = 95
         \<or> js_ws c \<or> (192 \<le> c \<and> c \<le> 591)
         \<or> c \<in> set [46, 44, 59, 58, 33, 63, 40, 41, 91, 93, 123, 125, 34, 39, 45, 47, 92,
                       64, 35, 36, 37, 38, 42, 43, 61, 60, 62, 124, 126, 96, 94]))"

definition detectNoiseLevel ::
  "(jstext \<Rightarrow> jstext) \<Rightarrow> (jstext \<Rightarrow> jstext list \<Rightarrow> nat) \<Rightarrow> jstext \<Rightarrow> noise" where
  "detectNoiseLevel stripPJeFooter signals text =
     (if text = [] then High
      else
        let charGarbageRatio =
              (of_nat (length (filter garbageChar text)) :: rat) / of_nat (max (length text) 1);
            wordGarbageScore = detectWordLevelGarbage stripPJeFooter signals text
        in if charGarbageRatio \<ge> 8 / 100 \<or> wordGarbageScore \<ge> 5 / 10 then High
           else if charGarbageRatio \<ge> 2 / 100 \<or> wordGarbageScore \<ge> 3 / 10 then Medium
           else Low)"

record page_profile =
  pp_page_number :: nat
  pp_readability_score :: nat
  pp_noise_level :: noise
  pp_word_garbage_score :: rat
  pp_quality_tier :: tier
  pp_char_count :: nat
  pp_is_degraded :: bool
  pp_empty :: bool
  pp_propagated :: "bool option"

text \<open>\<open>profilePages\<close>: the per-page map, then the document-level propagation. A fresh
  profile has no \<open>propagated\<close> field (\<open>None\<close>).\<close>

definition profilePage ::
  "(jstext \<Rightarrow> jstext) \<Rightarrow> (jstext \<Rightarrow> jstext list \<Rightarrow> nat) \<Rightarrow> page \<Rightarrow> page_profile" where
  "profilePage stripPJeFooter signals pg =
     (let text = page_text pg;
          readability = calculateReadability text 1;
          noise = detectNoiseLevel stripPJeFooter signals text;
          wordGarbage = detectWordLevelGarbage stripPJeFooter signals text;
          tier = getQualityTier readability;
          charCount = length text;
          isDegraded = (readability < 60 \<or> noise = High \<or> noise = Medium
                         \<or> wordGarbage \<ge> 15 / 100 \<or> charCount < 50)
      in \<lparr>pp_page_number = page_number pg,
          pp_readability_score = readability,
          pp_noise_level = noise,
          pp_word_garbage_score = round2 wordGarbage,
          pp_quality_tier = tier,
          pp_char_count = charCount,
          pp_is_degraded = isDegraded,
          pp_empty = page_empty pg,
          pp_propagated = None\<rparr>)"

definition propagateDegraded :: "page_profile list \<Rightarrow> page_profile list" where
  "propagateDegraded profiles =
     (let nonEmpty = filter (\<lambda>p. \<not> pp_empty p) profiles;
          degradedCount = length (filter pp_is_degraded nonEmpty)
      in if length nonEmpty > 0 \<and> 2 * degradedCount > length nonEmpty
         then map (\<lambda>p. if \<not> pp_empty p
                        then (if pp_propagated p = Some True
                              then p\<lparr>pp_is_degraded := True\<rparr>
                              else p\<lparr>pp_is_degraded := True,
                                     pp_propagated := Some (degradedCount < length nonEmpty)\<rparr>)
                        else p) profiles
         else profiles)"

definition profilePages ::
  "(jstext \<Rightarrow> jstext) \<Rightarrow> (jstext \<Rightarrow> jstext list \<Rightarrow> nat) \<Rightarrow> page list \<Rightarrow> page_profile list" where
  "profilePages stripPJeFooter signals pages =
     propagateDegraded (map (profilePage stripPJeFooter signals) pages)"

text \<open>\<open>aggregatePageProfiles\<close>. \<open>file\<close> and \<open>file_path\<close> are \<open>path.basename\<close> and
  \<open>path.resolve\<close> of the file path; the time stamp is left out.\<close>

record document_profile =
  dp_file :: string
  dp_file_path :: string
  dp_page_count :: nat
  dp_readability_score :: nat
  dp_quality_tier :: tier
  dp_noise_level :: noise
  dp_has_text_layer :: bool
  dp_degraded_pages :: "nat list"
  dp_degraded_count :: nat
  dp_clean_count :: nat
  dp_is_mixed_quality :: bool
  dp_page_profiles :: "page_profile list option"

definition aggregatePageProfiles ::
  "page_profile list \<Rightarrow> string \<Rightarrow> string \<Rightarrow> document_profile" where
  "aggregatePageProfiles pageProfiles file file_path =
     (if length pageProfiles = 0
      then \<lparr>dp_file = file, dp_file_path = file_path, dp_page_count = 0,
            dp_readability_score = 0, dp_quality_tier = TierF, dp_noise_level = High,
            dp_has_text_layer = False, dp_degraded_pages = [], dp_degraded_count = 0,
            dp_clean_count = 0, dp_is_mixed_quality = False, dp_page_profiles = None\<rparr>
      else
        let scores = sort (map pp_readability_score pageProfiles);
            median = scores ! (length scores div 2);
            degradedPages = filter pp_is_degraded pageProfiles;
            cleanPages = filter (\<lambda>p. \<not> pp_is_degraded p \<and> \<not> pp_empty p) pageProfiles;
            hasTextLayer = (length cleanPages > 0);
            noiseLevels = map pp_noise_level pageProfiles;
            worstNoise = (if High \<in> set noiseLevels then High
                          else if Medium \<in> set noiseLevels then Medium else Low)
        in \<lparr>dp_file = file, dp_file_path = file_path,
            dp_page_count = length pageProfiles,
            dp_readability_score = median,
            dp_quality_tier = getQualityTier median,
            dp_noise_level = worstNoise,
            dp_has_text_layer = hasTextLayer,
            dp_degraded_pages = map pp_page_number degradedPages,
            dp_degraded_count = length degradedPages,
            dp_clean_count = length cleanPages,
            dp_is_mixed_quality = (length degradedPages > 0 \<and> length cleanPages > 0),
            dp_page_profiles = Some pageProfiles\<rparr>)"

text \<open>The statistical median, as the specification words it: the middle element of the
  sorted scores, the mean of the two middle elements when their number is even.\<close>

definition statistical_median :: "nat list \<Rightarrow> rat" where
  "statistical_median xs =
     (let s = sort xs; n = length s
      in if odd n then of_nat (s ! (n div 2))
         else (of_nat (s ! (n div 2 - 1)) + of_nat (s ! (n div 2))) / 2)"


section \<open>JSON values, checkpoint and reports (autosplit-pipeline.js)\<close>

datatype json =
    JNull
  | JBool bool
  | JNum int
  | JStr string
  | JArr "json list"
  | JObj "(string \<times> json) list"

text \<open>Property access \<open>v.key\<close> (\<open>None\<close> is \<open>undefined\<close>) and the truth value of a JSON value.\<close>

fun jget :: "string \<Rightarrow> json \<Rightarrow> json option" where
  "jget key (JObj kvs) = map_of kvs key"
| "jget key v = None"


datatype log_level = Info | Warn | Verbose




text \<open>
  \<open>loadCheckpoint\<close>. \<open>computeChecksum\<close> (SHA-256 of \<open>JSON.stringify(obj, null, 2)\<close>) is a
  parameter. The destructuring \<open>{ checksum, ...dataWithoutChecksum } = raw\<close> takes the
  \<open>checksum\<close> property and the object without it; on a value that is not an object the
  \<open>checksum\<close> property is \<open>undefined\<close>, which differs from every checksum string. The
  final \<open>raw.completed_stages.join\<close> throws a TypeError when \<open>completed_stages\<close> is not an
  array; the result is then \<open>Inl\<close> of the error.
\<close>

datatype js_error = TypeError | Error string





text \<open>
  The QC summary of one exported file set, the merge of the summaries in stage 6 of
  \<open>runPipeline\<close> (a \<open>reduce\<close> per counter), and the part of the report that
  \<open>generateReport\<close> builds from it.
\<close>

record qc_summary =
  passed :: nat
  flagged :: nat
  rejected :: nat
  mislabels_caught :: nat

definition mergeQcResults :: "qc_summary list \<Rightarrow> qc_summary" where
  "mergeQcResults qcResults =
     \<lparr>passed = foldl (\<lambda>sum q. sum + passed q) 0 qcResults,
      flagged = foldl (\<lambda>sum q. sum + flagged q) 0 qcResults,
      rejected = foldl (\<lambda>sum q. sum + rejected q) 0 qcResults,
      mislabels_caught = foldl (\<lambda>sum q. sum + mislabels_caught q) 0 qcResults\<rparr>"

record pipeline_report =
  rp_source :: string
  rp_duration_ms :: nat
  rp_total_segments :: nat
  rp_qc :: qc_summary
  rp_review_needed :: bool
  rp_review_reasons :: "string list"

text \<open>\<open>generateReport\<close>, restricted to the fields the batch report reads: \<open>segmentCounts\<close>
  are the numbers of segments of the files, \<open>qcResult\<close> is \<open>None\<close> when stage 6 did not
  run. The texts of the review reasons carry the counts in the source; here they are
  the fixed parts of those texts.\<close>

definition generateReport ::
  "string \<Rightarrow> nat \<Rightarrow> nat list \<Rightarrow> qc_summary option \<Rightarrow> pipeline_report" where
  "generateReport source duration segmentCounts qcResult =
     (let totalSegments = foldl (\<lambda>sum n. sum + n) 0 segmentCounts;
          reviewReasons =
            (case qcResult of
               None \<Rightarrow> []
             | Some q \<Rightarrow>
                 (if flagged q > 0 then [''file(s) flagged''] else [])
                 @ (if rejected q > 0 then [''file(s) rejected''] else [])
                 @ (if mislabels_caught q > 0 then [''mislabel(s) detected''] else []))
      in \<lparr>rp_source = source,
          rp_duration_ms = duration,
          rp_total_segments = totalSegments,
          rp_qc = (case qcResult of
                     Some q \<Rightarrow> q
                   | None \<Rightarrow> \<lparr>passed = 0, flagged = 0, rejected = 0, mislabels_caught = 0\<rparr>),
          rp_review_needed = (length reviewReasons > 0),
          rp_review_reasons = reviewReasons\<rparr>)"

text \<open>\<open>generateBatchReport\<close>: the object that is written to \<open>batch-report.json\<close>;
  \<open>completed_at\<close> is the time stamp.\<close>

definition VERSION :: string where
  "VERSION = ''1.3.0''"

definition batchPdfEntry :: "pipeline_report \<Rightarrow> json" where
  "batchPdfEntry r =
     JObj [(''source'', JStr (rp_source r)),
           (''duration_ms'', JNum (int (rp_duration_ms r))),
           (''segments'', JNum (int (rp_total_segments r))),
           (''qc_passed'', JNum (int (passed (rp_qc r)))),
           (''qc_flagged'', JNum (int (flagged (rp_qc r)))),
           (''qc_rejected'', JNum (int (rejected (rp_qc r)))),
           (''review_needed'', JBool (rp_review_needed r))]"

definition generateBatchReport :: "pipeline_report list \<Rightarrow> string \<Rightarrow> nat \<Rightarrow> json" where
  "generateBatchReport reports completed_at totalDuration =
     JObj [(''pipeline_version'', JStr VERSION),
           (''completed_at'', JStr completed_at),
           (''total_duration_ms'', JNum (int totalDuration)),
           (''total_pdfs'', JNum (int (length reports))),
           (''total_segments'',
              JNum (int (foldl (\<lambda>sum r. sum + rp_total_segments r) 0 reports))),
           (''review_needed'', JBool (list_ex rp_review_needed reports)),
           (''pdfs'', JArr (map batchPdfEntry reports))]"


section \<open>Intake (pdf-ingester.js)\<close>

text \<open>
  A directory as \<open>fs.readdirSync(dir, { withFileTypes: true })\<close> shows it: its entries in
  the order in which the file system returns them, each a file, a directory with its own
  entries, or something else (a link, a socket).
\<close>

datatype dirent = FileEnt string | DirEnt string "dirent list" | OtherEnt string

definition toLowerCase :: "string \<Rightarrow> string" where
  "toLowerCase s =
     map (\<lambda>c. if 65 \<le> (of_char c :: nat) \<and> (of_char c :: nat) \<le> 90
              then char_of ((of_char c :: nat) + 32) else c) s"

definition endsWith :: "string \<Rightarrow> string \<Rightarrow> bool" where
  "endsWith s suf = (length suf \<le> length s \<and> drop (length s - length suf) s = suf)"

definition path_join :: "string \<Rightarrow> string \<Rightarrow> string" where
  "path_join dir name = dir @ ''/'' @ name"

definition basename :: "string \<Rightarrow> string" where
  "basename p = rev (takeWhile (\<lambda>c. c \<noteq> CHR ''/'') (rev p))"

fun scanDirectory :: "bool \<Rightarrow> string \<Rightarrow> dirent list \<Rightarrow> string list" where
  "scanDirectory recursive dirPath [] = []"
| "scanDirectory recursive dirPath (FileEnt name # entries) =
     (if endsWith (toLowerCase name) ''.pdf'' then [path_join dirPath name] else [])
     @ scanDirectory recursive dirPath entries"
| "scanDirectory recursive dirPath (DirEnt name sub # entries) =
     (if recursive then scanDirectory recursive (path_join dirPath name) sub else [])
     @ scanDirectory recursive dirPath entries"
| "scanDirectory recursive dirPath (OtherEnt name # entries) =
     scanDirectory recursive dirPath entries"

text \<open>
  \<open>ingestFile\<close> reads the file system three times (\<open>statSync\<close>, the full hash, the hash
  of the first 4096 bytes); \<open>probe\<close> stands for the three reads and is \<open>Inl\<close> of the error
  message when one of them throws. Paths are absolute, so \<open>path.resolve\<close> is the identity.
\<close>

record file_facts =
  ff_size :: nat
  ff_modified :: string
  ff_sha256 :: string
  ff_sha256_4k :: string

record source_file =
  sf_name :: string
  sf_size :: nat
  sf_modified :: string
  sf_source_path :: string
  sf_hash :: string
  sf_partial_hash :: string
  sf_timestamp :: string

definition ingestFile ::
  "(string \<Rightarrow> string + file_facts) \<Rightarrow> string \<Rightarrow> string \<Rightarrow> string + source_file" where
  "ingestFile probe now filePath =
     (case probe filePath of
        Inl msg \<Rightarrow> Inl msg
      | Inr f \<Rightarrow>
          Inr \<lparr>sf_name = basename filePath, sf_size = ff_size f, sf_modified = ff_modified f,
               sf_source_path = filePath, sf_hash = ff_sha256 f,
               sf_partial_hash = ff_sha256_4k f, sf_timestamp = now\<rparr>)"

record duplicate_entry =
  dup_name :: string
  dup_hash :: string
  dup_original_path :: string

record error_entry =
  err_name :: string
  err_message :: string

record ingest_state =
  fingerprintDB :: "string \<rightharpoonup> string"
  st_files :: "source_file list"
  st_duplicates :: "duplicate_entry list"
  st_errors :: "error_entry list"

fun ingestLoop ::
  "(string \<Rightarrow> string + file_facts) \<Rightarrow> string \<Rightarrow> bool \<Rightarrow> string list \<Rightarrow> ingest_state
     \<Rightarrow> ingest_state" where
  "ingestLoop probe now dedup [] st = st"
| "ingestLoop probe now dedup (pdfPath # rest) st =
     (case ingestFile probe now pdfPath of
        Inl msg \<Rightarrow>
          ingestLoop probe now dedup rest
            (st\<lparr>st_errors := st_errors st
                   @ [\<lparr>err_name = basename pdfPath, err_message = msg\<rparr>]\<rparr>)
      | Inr result \<Rightarrow>
          (case (if dedup then fingerprintDB st (sf_hash result) else None) of
             Some original \<Rightarrow>
               ingestLoop probe now dedup rest
                 (st\<lparr>st_duplicates := st_duplicates st
                        @ [\<lparr>dup_name = sf_name result, dup_hash = sf_hash result,
                            dup_original_path = original\<rparr>]\<rparr>)
           | None \<Rightarrow>
               ingestLoop probe now dedup rest
                 (st\<lparr>fingerprintDB := (fingerprintDB st)(sf_hash result \<mapsto> sf_source_path result),
                     st_files := st_files st @ [result]\<rparr>)))"

record manifest_summary =
  total_scanned :: nat
  registered :: nat
  duplicates :: nat
  errors :: nat

record manifest =
  m_source :: string
  m_summary :: manifest_summary
  m_files :: "source_file list"
  m_duplicates :: "duplicate_entry list"
  m_errors :: "error_entry list"

text \<open>The source of \<open>ingest\<close>: a file, a directory with its entries, or a path that does
  not exist, on which \<open>statSync\<close> throws. The result carries the fingerprint table the
  ingester keeps for its next call.\<close>

datatype source = SrcFile string | SrcDir string "dirent list" | SrcMissing string

definition ingest ::
  "(string \<Rightarrow> string + file_facts) \<Rightarrow> string \<Rightarrow> bool \<Rightarrow> bool \<Rightarrow> (string \<rightharpoonup> string) \<Rightarrow> source
     \<Rightarrow> string + manifest \<times> (string \<rightharpoonup> string)" where
  "ingest probe now dedup recursive db src =
     (case src of
        SrcMissing p \<Rightarrow> Inl ''ENOENT: no such file or directory''
      | _ \<Rightarrow>
          let sourcePath = (case src of SrcFile p \<Rightarrow> p | SrcDir p es \<Rightarrow> p | SrcMissing p \<Rightarrow> p);
              pdfPaths = (case src of
                            SrcDir p es \<Rightarrow> scanDirectory recursive p es
                          | _ \<Rightarrow> [sourcePath]);
              st = ingestLoop probe now dedup pdfPaths
                     \<lparr>fingerprintDB = db, st_files = [], st_duplicates = [], st_errors = []\<rparr>
          in Inr (\<lparr>m_source = sourcePath,
                    m_summary = \<lparr>total_scanned = length pdfPaths,
                                  registered = length (st_files st),
                                  duplicates = length (st_duplicates st),
                                  errors = length (st_errors st)\<rparr>,
                    m_files = st_files st,
                    m_duplicates = st_duplicates st,
                    m_errors = st_errors st\<rparr>,
                  fingerprintDB st))"

text \<open>\<open>detectSource\<close> of the orchestrator, on a directory: the names ending in \<open>.pdf\<close>,
  sorted, then joined to the directory.\<close>

definition detectSourceDir :: "string \<Rightarrow> string list \<Rightarrow> string + string list" where
  "detectSourceDir sourcePath names =
     (let pdfs = map (path_join sourcePath)
                   (sort (filter (\<lambda>f. endsWith (toLowerCase f) ''.pdf'') names))
      in if length pdfs = 0 then Inl ''No PDF files found in directory'' else Inr pdfs)"


section \<open>Segments and their Markdown file names (md-exporter.js)\<close>

record marker =
  mk_rule :: string
  mk_weight :: rat
  mk_description :: string
  mk_page :: nat

record segment =
  segment_id :: string
  seg_type :: string
  doc_type :: string
  classification_source :: string
  page_start :: nat
  page_end :: nat
  seg_confidence :: rat
  boundary_markers :: "marker list"
  classification_confidence :: "rat option"
  classification_indicators :: "string list option"
  l2_previous_type :: "string option"
  l2_boost :: "rat option"
  l2_reasons :: "string list option"
  cascade_level :: "nat option"

text \<open>\<open>String(n)\<close> for a natural number and \<open>padStart(3, '0')\<close>.\<close>

definition digit_char :: "nat \<Rightarrow> char" where
  "digit_char d = ''0123456789'' ! d"

function show_nat :: "nat \<Rightarrow> string" where
  "show_nat n = (if n < 10 then [digit_char n] else show_nat (n div 10) @ [digit_char (n mod 10)])"
  by pat_completeness auto
termination
  by (relation "measure id") auto

declare show_nat.simps [simp del]

definition padStart3 :: "string \<Rightarrow> string" where
  "padStart3 s = replicate (3 - length s) CHR ''0'' @ s"

definition generateFilename :: "segment \<Rightarrow> nat \<Rightarrow> string" where
  "generateFilename segment index =
     (let num = padStart3 (show_nat (index + 1));
          type = (if seg_type segment = [] then ''piece'' else seg_type segment);
          docType = (if doc_type segment = [] then ''unknown'' else doc_type segment)
      in num @ ''-'' @ type @ ''-'' @ docType @ ''.md'')"

text \<open>Reading a decimal numeral back: leading zeros do not count, and \<open>show_nat\<close> is
  inverted.\<close>

definition read_nat :: "string \<Rightarrow> nat" where
  "read_nat s = foldl (\<lambda>a c. 10 * a + ((of_char c :: nat) - 48)) 0 s"

text \<open>The file names that \<open>exportAll\<close> writes, in order.\<close>

definition exportAllNames :: "segment list \<Rightarrow> string list" where
  "exportAllNames segments =
     map (\<lambda>i. generateFilename (segments ! i) i) [0 ..< length segments]"

definition VALID_TYPES :: "string list" where
  "VALID_TYPES =
     [''peticao-inicial'', ''inicial-eef'', ''inicial-execfiscal'', ''inicial-ms'',
      ''contestacao'', ''impugnacao'',
      ''laudo-pericial'', ''decisao-interlocutoria'',
      ''sentenca'', ''sentenca-edcl'', ''edcl'',
      ''apelacao'', ''contrarrazoes'', ''agravo'', ''recurso-especial'',
      ''recurso-extraordinario'',
      ''acordao'', ''acordao-trf'', ''distribuicao'', ''pauta'',
      ''auto-infracao'', ''defesa-admin'', ''impugnacao-admin'', ''decisao-admin-1inst'',
      ''recurso-admin'', ''recurso-carf'', ''contrarrazoes-admin'', ''resposta-fazenda'',
      ''acordao-carf'', ''acordao-csrf'',
      ''cda'', ''laudo-constitutivo'', ''documento-fiscal'', ''parecer-tecnico'',
      ''despacho'',
      ''parecer-mp'', ''parecer-pgfn'', ''parecer-agu'',
      ''oficio'', ''portaria'', ''memorando'',
      ''certidao'', ''certidao-publicacao'',
      ''lixo'', ''lixo-procuracao'', ''lixo-societario'', ''lixo-fianca'', ''lixo-capa'',
      ''lixo-certidao-publicacao'', ''lixo-ato-ordinatorio'', ''lixo-substabelecimento'',
      ''lixo-termo-abertura'',
      ''unknown'']"

text \<open>
  The regular expression of the specification for a file name,
  \<open>^[0-9]{3}-[a-z-]+-[a-z-]+\.md$\<close>: three digits, a hyphen, then a middle part and the
  suffix \<open>.md\<close>, where the middle part consists of lower-case letters and hyphens and has
  a hyphen that is neither its first nor its last character.
\<close>

definition isDigit :: "char \<Rightarrow> bool" where
  "isDigit c = (48 \<le> (of_char c :: nat) \<and> (of_char c :: nat) \<le> 57)"

definition lowerHyphen :: "char \<Rightarrow> bool" where
  "lowerHyphen c = ((97 \<le> (of_char c :: nat) \<and> (of_char c :: nat) \<le> 122) \<or> c = CHR ''-'')"

definition md_name_ok :: "string \<Rightarrow> bool" where
  "md_name_ok s =
     (length s \<ge> 7
      \<and> list_all isDigit (take 3 s)
      \<and> s ! 3 = CHR ''-''
      \<and> drop (length s - 3) s = ''.md''
      \<and> (let mid = drop 4 (take (length s - 3) s)
         in list_all lowerHyphen mid \<and> mid \<noteq> [] \<and> CHR ''-'' \<in> set (butlast (tl mid))))"


section \<open>Page segmenter (page-segmenter.js)\<close>

text \<open>
  Regular expressions are kept as data: the source of the expression and its flags. A
  source is written with \<open>%\<close> for the backslash and with \<open>%uXXXX\<close> for a letter outside
  ASCII. The engine itself is not part of the embedding: \<open>RegExp.prototype.test\<close> is the
  parameter \<open>regexTest\<close> of the functions below, and so are the two helpers that are one
  chain of regular-expression replacements or matches, \<open>_stripPJeBlocks\<close> and
  \<open>_extractParagraphNum\<close>.
\<close>

datatype regex = Regex string string

record boundary_rule =
  br_name :: string
  br_pattern :: regex
  br_weight :: rat
  br_description :: string

definition boundaryRules :: "boundary_rule list" where
  "boundaryRules =
     [
      \<lparr>br_name = ''court-header'',
       br_pattern = Regex ''poder%s+judici[a%u00e1]rio|tribunal%s+de%s+justi[c%u00e7]a|justi[c%u00e7]a%s+(federal|estadual|do%s+trabalho)'' ''i'',
       br_weight = 9 / 10, br_description = ''Court header or seal detected''\<rparr>,
      \<lparr>br_name = ''petition-start'',
       br_pattern = Regex ''(?:excelent[i%u00ed]ssim[oa]|exm[oa]%.?)%s+s(?:enhor[a]?|r%.?)%s+(?:d(?:outor[a]?|r%.?)%s+)?(?:juiz|ju[i%u00ed]z[a]?|desembargador)'' ''i'',
       br_weight = 17 / 20, br_description = ''Petition opening formula''\<rparr>,
      \<lparr>br_name = ''sentence-start'',
       br_pattern = Regex ''%bsenten[c%u00e7]a%b'' ''i'',
       br_weight = 9 / 10, br_description = ''Sentence header''\<rparr>,
      \<lparr>br_name = ''acordao-start'',
       br_pattern = Regex ''%bac[o%u00f3]rd[a%u00e3][om]%b'' ''i'',
       br_weight = 9 / 10, br_description = ''Acordao header''\<rparr>,
      \<lparr>br_name = ''certidao-start'',
       br_pattern = Regex ''%bcertid[a%u00e3]o%b.*%bcertifico'' ''i'',
       br_weight = 4 / 5, br_description = ''Certidao header''\<rparr>,
      \<lparr>br_name = ''attachment-label'',
       br_pattern = Regex ''%b(anexo%s+[IVX%d]|documento%s+n)'' ''i'',
       br_weight = 3 / 4, br_description = ''Attachment or exhibit label''\<rparr>,
      \<lparr>br_name = ''process-number'',
       br_pattern = Regex ''%d{7}-%d{2}%.%d{4}%.%d%.%d{2}%.%d{4}'' '''',
       br_weight = 3 / 5, br_description = ''CNJ process number format''\<rparr>,
      \<lparr>br_name = ''despacho'',
       br_pattern = Regex ''%bdespacho%b'' ''i'',
       br_weight = 7 / 10, br_description = ''Despacho header''\<rparr>,
      \<lparr>br_name = ''decisao'',
       br_pattern = Regex ''%bdecis[a%u00e3]o%s*(interlocut[o%u00f3]ria)?'' ''i'',
       br_weight = 3 / 4, br_description = ''Decision header''\<rparr>,
      \<lparr>br_name = ''oficio'',
       br_pattern = Regex ''%bof[i%u00ed]cio%s+n'' ''i'',
       br_weight = 7 / 10, br_description = ''Oficio header''\<rparr>]"

definition extractHeading :: "jstext \<Rightarrow> nat \<Rightarrow> jstext" where
  "extractHeading text maxLines =
     js_join [10] (take maxLines (filter (\<lambda>l. length l > 3) (map js_trim (js_split 10 text))))"

definition detectBoundaries ::
  "(jstext \<Rightarrow> jstext) \<Rightarrow> (regex \<Rightarrow> jstext \<Rightarrow> bool) \<Rightarrow> jstext \<Rightarrow> nat \<Rightarrow> marker list" where
  "detectBoundaries stripPJeBlocks regexTest pageText pageNumber =
     (let cleanedText = stripPJeBlocks pageText;
          heading = extractHeading cleanedText 3;
          markers =
            map (\<lambda>rule. \<lparr>mk_rule = br_name rule, mk_weight = br_weight rule,
                          mk_description = br_description rule, mk_page = pageNumber\<rparr>)
              (filter (\<lambda>rule. regexTest (br_pattern rule) heading) boundaryRules)
      in if length cleanedText < 30
         then markers @ [\<lparr>mk_rule = ''blank-page'', mk_weight = 7 / 10,
                            mk_description = ''Blank or near-blank separator page'',
                            mk_page = pageNumber\<rparr>]
         else markers)"

record classification =
  primary_type :: string
  cl_confidence :: rat
  cl_indicators :: "string list"
  secondary_type :: "string option"
  secondary_confidence :: "rat option"

record segment_type =
  st_type :: string
  st_doc_type :: string
  st_classification_source :: "string option"

definition ruleToType :: "(string \<times> string \<times> string) list" where
  "ruleToType =
     [(''court-header'', ''piece'', ''unknown''),
      (''petition-start'', ''piece'', ''peticao''),
      (''sentence-start'', ''piece'', ''sentenca''),
      (''acordao-start'', ''piece'', ''acordao''),
      (''certidao-start'', ''piece'', ''certidao''),
      (''attachment-label'', ''attachment'', ''attachment''),
      (''despacho'', ''piece'', ''despacho''),
      (''decisao'', ''piece'', ''decisao-interlocutoria''),
      (''oficio'', ''piece'', ''oficio''),
      (''blank-page'', ''separator'', ''separator'')]"

text \<open>\<open>_inferSegmentType\<close>. The markers are sorted by descending weight with a stable
  sort, so the first marker of the highest weight decides.\<close>

definition profilerFallback :: "classification option \<Rightarrow> string \<Rightarrow> segment_type option" where
  "profilerFallback cls t =
     (case cls of
        Some c \<Rightarrow>
          if cl_confidence c \<ge> 2 / 10
          then Some \<lparr>st_type = t, st_doc_type = primary_type c,
                      st_classification_source = Some ''profiler-fallback''\<rparr>
          else None
      | None \<Rightarrow> None)"

definition inferSegmentType :: "marker list \<Rightarrow> classification option \<Rightarrow> segment_type" where
  "inferSegmentType markers cls =
     (let sorted = sort_key (\<lambda>m. - mk_weight m) markers;
          byRule = (case sorted of [] \<Rightarrow> None | m # ms \<Rightarrow> map_of ruleToType (mk_rule m))
      in case byRule of
           Some (t, d) \<Rightarrow>
             (case (if d = ''unknown'' then profilerFallback cls t else None) of
                Some r \<Rightarrow> r
              | None \<Rightarrow> \<lparr>st_type = t, st_doc_type = d, st_classification_source = None\<rparr>)
         | None \<Rightarrow>
             (case profilerFallback cls ''piece'' of
                Some r \<Rightarrow> r
              | None \<Rightarrow> \<lparr>st_type = ''piece'', st_doc_type = ''unknown'',
                           st_classification_source = None\<rparr>))"

text \<open>The state of the loop of \<open>segment\<close>: the closed segments, the open one, the
  segment counter and the last paragraph number seen.\<close>

record segmenter_state =
  closed_segments :: "segment list"
  currentSegment :: "segment option"
  segmentCounter :: nat
  prevPageLastParaNum :: "nat option"

definition segmentPage ::
  "(jstext \<Rightarrow> jstext) \<Rightarrow> (regex \<Rightarrow> jstext \<Rightarrow> bool) \<Rightarrow> (jstext \<Rightarrow> bool \<Rightarrow> nat option)
     \<Rightarrow> classification option \<Rightarrow> segmenter_state \<Rightarrow> page \<Rightarrow> segmenter_state" where
  "segmentPage stripPJeBlocks regexTest extractParagraphNum cls st pg =
     (let markers = detectBoundaries stripPJeBlocks regexTest (page_text pg) (page_number pg);
          detected = list_ex (\<lambda>m. mk_weight m \<ge> 7 / 10 \<and> mk_rule m \<noteq> ''blank-page'') markers;
          isBlank = list_ex (\<lambda>m. mk_rule m = ''blank-page'') markers;
          suppressed =
            (case (currentSegment st, prevPageLastParaNum st) of
               (Some cur, Some prevNum) \<Rightarrow>
                 detected \<and> \<not> list_ex (\<lambda>m. mk_weight m \<ge> 85 / 100) markers
                 \<and> extractParagraphNum (stripPJeBlocks (page_text pg)) False = Some (prevNum + 1)
             | _ \<Rightarrow> False);
          isNewPiece = (detected \<and> \<not> suppressed);
          prevNum' = (case extractParagraphNum (stripPJeBlocks (page_text pg)) True of
                        Some n \<Rightarrow> Some n
                      | None \<Rightarrow> prevPageLastParaNum st)
      in if isNewPiece \<or> currentSegment st = None
         then
           let segType = inferSegmentType markers cls in
           \<lparr>closed_segments =
              (case currentSegment st of
                 Some cur \<Rightarrow> closed_segments st @ [cur]
               | None \<Rightarrow> closed_segments st),
            currentSegment =
              Some \<lparr>segment_id = ''seg-'' @ padStart3 (show_nat (segmentCounter st + 1)),
                    seg_type = st_type segType,
                    doc_type = st_doc_type segType,
                    classification_source =
                      (case st_classification_source segType of
                         Some s \<Rightarrow> s | None \<Rightarrow> ''boundary-rules''),
                    page_start = page_number pg,
                    page_end = page_number pg,
                    seg_confidence = foldl max (1 / 2) (map mk_weight markers),
                    boundary_markers = markers,
                    classification_confidence = None,
                    classification_indicators = None,
                    l2_previous_type = None, l2_boost = None, l2_reasons = None,
                    cascade_level = None\<rparr>,
            segmentCounter = segmentCounter st + 1,
            prevPageLastParaNum = prevNum'\<rparr>
         else if isBlank
         then st\<lparr>currentSegment :=
                   map_option (\<lambda>cur. cur\<lparr>page_end := page_number pg\<rparr>) (currentSegment st),
                 prevPageLastParaNum := prevNum'\<rparr>
         else st\<lparr>currentSegment :=
                   map_option (\<lambda>cur. cur\<lparr>page_end := page_number pg\<rparr>) (currentSegment st),
                 prevPageLastParaNum := prevNum'\<rparr>)"

definition segmenterInit :: segmenter_state where
  "segmenterInit =
     \<lparr>closed_segments = [], currentSegment = None, segmentCounter = 0,
      prevPageLastParaNum = None\<rparr>"

definition closeLast :: "segmenter_state \<Rightarrow> segment list" where
  "closeLast st =
     (case currentSegment st of
        Some cur \<Rightarrow> closed_segments st @ [cur]
      | None \<Rightarrow> closed_segments st)"

text \<open>\<open>segment\<close>, on the pages and the classification of the extracted document. The
  coverage validation at its end only prints a warning.\<close>

definition segment ::
  "(jstext \<Rightarrow> jstext) \<Rightarrow> (regex \<Rightarrow> jstext \<Rightarrow> bool) \<Rightarrow> (jstext \<Rightarrow> bool \<Rightarrow> nat option)
     \<Rightarrow> page list \<Rightarrow> classification option \<Rightarrow> segment list" where
  "segment stripPJeBlocks regexTest extractParagraphNum pages cls =
     (if length pages = 0 then []
      else closeLast
             (foldl (segmentPage stripPJeBlocks regexTest extractParagraphNum cls)
                segmenterInit pages))"

text \<open>The condition of the claim on a page: its cleaned text is shorter than 30
  characters and no marker other than \<open>blank-page\<close> has a weight of at least 0.7.\<close>

definition blankOnly ::
  "(jstext \<Rightarrow> jstext) \<Rightarrow> (regex \<Rightarrow> jstext \<Rightarrow> bool) \<Rightarrow> page \<Rightarrow> bool" where
  "blankOnly stripPJeBlocks regexTest pg =
     (length (stripPJeBlocks (page_text pg)) < 30
      \<and> \<not> list_ex (\<lambda>m. mk_weight m \<ge> 7 / 10 \<and> mk_rule m \<noteq> ''blank-page'')
            (detectBoundaries stripPJeBlocks regexTest (page_text pg) (page_number pg)))"


section \<open>Contextual reclassification, stage 5.6\<close>

text \<open>
  The text of a regular-expression source as the string it is in the program: \<open>%uXXXX\<close>
  is the code unit \<open>XXXX\<close> and any other \<open>%\<close> is the backslash.
\<close>

definition hexval :: "char \<Rightarrow> nat" where
  "hexval c =
     (let n = (of_char c :: nat)
      in if 48 \<le> n \<and> n \<le> 57 then n - 48
         else if 97 \<le> n \<and> n \<le> 102 then n - 87
         else if 65 \<le> n \<and> n \<le> 70 then n - 55
         else 0)"

fun js_source :: "string \<Rightarrow> jstext" where
  "js_source (p # u # a # b # c # d # rest) =
     (if p = CHR ''%'' \<and> u = CHR ''u''
      then (((hexval a * 16 + hexval b) * 16 + hexval c) * 16 + hexval d) # js_source rest
      else (if p = CHR ''%'' then 92 else of_char p) # js_source (u # a # b # c # d # rest))"
| "js_source (p # rest) = (if p = CHR ''%'' then 92 else of_char p) # js_source rest"
| "js_source [] = []"

definition TRANSITIONS :: "(string \<times> string list) list" where
  "TRANSITIONS =
     [
      (''inicial-eef'',
        [''cda'', ''laudo-constitutivo'', ''documento-fiscal'', ''impugnacao'',
         ''decisao-interlocutoria'', ''despacho'']),
      (''inicial-execfiscal'',
        [''cda'', ''documento-fiscal'', ''despacho'', ''decisao-interlocutoria'']),
      (''inicial-ms'',
        [''decisao-interlocutoria'', ''contestacao'', ''impugnacao'', ''despacho'']),
      (''peticao-inicial'',
        [''decisao-interlocutoria'', ''contestacao'', ''impugnacao'', ''despacho'', ''cda'']),
      (''cda'',
        [''impugnacao'', ''decisao-interlocutoria'', ''despacho'', ''documento-fiscal'',
         ''laudo-constitutivo'']),
      (''laudo-constitutivo'',
        [''decisao-interlocutoria'', ''despacho'', ''impugnacao'', ''sentenca'',
         ''laudo-constitutivo'']),
      (''documento-fiscal'',
        [''decisao-interlocutoria'', ''despacho'', ''impugnacao'', ''laudo-constitutivo'',
         ''documento-fiscal'']),
      (''parecer-tecnico'',
        [''decisao-interlocutoria'', ''despacho'', ''sentenca'']),
      (''laudo-pericial'',
        [''sentenca'', ''decisao-interlocutoria'', ''despacho'']),
      (''impugnacao'',
        [''decisao-interlocutoria'', ''sentenca'', ''laudo-pericial'', ''despacho'']),
      (''contestacao'',
        [''sentenca'', ''decisao-interlocutoria'', ''laudo-pericial'', ''despacho'']),
      (''sentenca'',
        [''edcl'', ''apelacao'', ''sentenca-edcl'', ''certidao-publicacao'']),
      (''sentenca-edcl'',
        [''apelacao'', ''edcl'', ''certidao-publicacao'']),
      (''edcl'',
        [''sentenca-edcl'', ''sentenca'', ''acordao'', ''acordao-trf'']),
      (''apelacao'',
        [''contrarrazoes'', ''acordao'', ''acordao-trf'', ''distribuicao'']),
      (''contrarrazoes'',
        [''acordao'', ''acordao-trf'', ''distribuicao'', ''pauta'']),
      (''agravo'',
        [''decisao-interlocutoria'', ''despacho'']),
      (''recurso-especial'',
        [''acordao'', ''contrarrazoes'']),
      (''recurso-extraordinario'',
        [''acordao'', ''contrarrazoes'']),
      (''distribuicao'',
        [''pauta'', ''acordao'', ''acordao-trf'']),
      (''pauta'',
        [''acordao'', ''acordao-trf'']),
      (''acordao'',
        [''edcl'', ''recurso-especial'', ''recurso-extraordinario'', ''certidao-publicacao'']),
      (''acordao-trf'',
        [''edcl'', ''recurso-especial'', ''recurso-extraordinario'', ''certidao-publicacao'']),
      (''auto-infracao'',
        [''defesa-admin'', ''impugnacao-admin'', ''decisao-interlocutoria'']),
      (''defesa-admin'',
        [''decisao-admin-1inst'', ''decisao-interlocutoria'']),
      (''impugnacao-admin'',
        [''decisao-admin-1inst'', ''decisao-interlocutoria'']),
      (''decisao-admin-1inst'',
        [''recurso-admin'', ''recurso-carf'']),
      (''recurso-admin'',
        [''contrarrazoes-admin'', ''resposta-fazenda'', ''acordao-carf'']),
      (''recurso-carf'',
        [''contrarrazoes-admin'', ''resposta-fazenda'', ''acordao-carf'']),
      (''contrarrazoes-admin'',
        [''acordao-carf'']),
      (''resposta-fazenda'',
        [''acordao-carf'']),
      (''acordao-carf'',
        [''acordao-csrf'', ''edcl'', ''recurso-especial'']),
      (''acordao-csrf'',
        [''edcl'', ''recurso-especial'']),
      (''parecer-pgfn'',
        [''sentenca'', ''decisao-interlocutoria'', ''acordao'', ''despacho'']),
      (''parecer-agu'',
        [''sentenca'', ''decisao-interlocutoria'', ''acordao'', ''despacho'']),
      (''parecer-mp'',
        [''sentenca'', ''decisao-interlocutoria'', ''despacho''])]"

definition NEUTRAL_TYPES :: "string list" where
  "NEUTRAL_TYPES =
     [''despacho'', ''decisao-interlocutoria'', ''certidao'', ''certidao-publicacao'',
      ''oficio'', ''portaria'', ''memorando'', ''parecer-tecnico'', ''lixo'',
      ''lixo-procuracao'', ''lixo-substabelecimento'', ''lixo-societario'', ''lixo-fianca'',
      ''lixo-capa'', ''lixo-certidao-publicacao'', ''lixo-ato-ordinatorio'',
      ''lixo-termo-abertura'', ''unknown'']"

definition RESPONSE_TYPES :: "string list" where
  "RESPONSE_TYPES =
     [''impugnacao'', ''contestacao'', ''contrarrazoes'', ''contrarrazoes-admin'',
      ''defesa-admin'', ''impugnacao-admin'', ''resposta-fazenda'', ''sentenca-edcl'']"

definition INITIATOR_TYPES :: "string list" where
  "INITIATOR_TYPES =
     [''inicial-eef'', ''inicial-execfiscal'', ''inicial-ms'', ''peticao-inicial'',
      ''auto-infracao'']"

definition startsWith :: "string \<Rightarrow> string \<Rightarrow> bool" where
  "startsWith s pre = (take (length pre) s = pre)"

text \<open>
  The state of the loop over the non-separator segments of one file: the index \<open>j\<close>,
  the \<open>doc_type\<close> of the previous non-separator segment as the loop left it (\<open>None\<close> at
  \<open>j = 0\<close>), and the counters \<open>assignedInicialTypes\<close>.
\<close>

record l2_state =
  l2_j :: nat
  l2_prevType :: "string option"
  assignedInicialTypes :: "string \<Rightarrow> nat"

text \<open>The text of a segment, and the secondary type the cascade may fall back to.\<close>

definition segmentText :: "page list \<Rightarrow> segment \<Rightarrow> jstext" where
  "segmentText pages seg =
     js_join [10]
       (map page_text
          (filter (\<lambda>p. page_number p \<ge> page_start seg \<and> page_number p \<le> page_end seg) pages))"

definition secondaryCandidate ::
  "(jstext \<Rightarrow> classification) \<Rightarrow> page list \<Rightarrow> l2_state \<Rightarrow> segment \<Rightarrow> rat
     \<Rightarrow> (string \<times> rat \<times> string list) option" where
  "secondaryCandidate classify pages st seg newConfidence =
     (let segText = segmentText pages seg in
      if length (js_trim segText) \<ge> 50
      then
        let reClass = classify segText in
        (case (secondary_type reClass, secondary_confidence reClass) of
           (Some secType, Some secConf) \<Rightarrow>
             if secType \<noteq> [] \<and> secType \<noteq> ''unknown''
             then
               let secBoost =
                     (case l2_prevType st of
                        Some pt \<Rightarrow>
                          (case map_of TRANSITIONS pt of
                             Some probableNext \<Rightarrow>
                               if pt \<noteq> [] \<and> secType \<in> set probableNext then 15 / 100 else 0
                           | None \<Rightarrow> 0)
                      | None \<Rightarrow> 0)
                     + (if l2_j st = 0 \<and> secType \<in> set INITIATOR_TYPES then 10 / 100 else 0);
                   boostedSecondary = min 1 (round2 (secConf + secBoost))
               in if boostedSecondary > newConfidence
                  then Some (secType, boostedSecondary, cl_indicators reClass)
                  else None
             else None
         | _ \<Rightarrow> None)
      else None)"

text \<open>The condition under which the document context turns \<open>inicial-execfiscal\<close> into
  \<open>inicial-eef\<close>.\<close>

definition pdfImpliesEef :: "(regex \<Rightarrow> jstext \<Rightarrow> bool) \<Rightarrow> classification option \<Rightarrow> bool" where
  "pdfImpliesEef regexTest pdfClassification =
     (case pdfClassification of
        None \<Rightarrow> False
      | Some c \<Rightarrow>
          primary_type c = ''inicial-eef''
          \<or> list_ex (\<lambda>ind. regexTest (Regex ''embargos?%s+.*execu'' ''i'') (js_source ind))
               (cl_indicators c))"

text \<open>
  The body of the loop for one non-separator segment, in three parts: the boosts that
  depend on the position (transition from the previous type, start of the document,
  duplicate \<open>inicial-*\<close>), the boosts that depend on the document classification, and
  the counters \<open>assignedInicialTypes\<close> after the segment's type was counted.
\<close>

definition positionalBoosts :: "l2_state \<Rightarrow> string \<Rightarrow> (rat \<times> string) list" where
  "positionalBoosts st currentType =
     (let transition =
            (case l2_prevType st of
               Some pt \<Rightarrow>
                 if pt \<noteq> [] \<and> currentType \<notin> set NEUTRAL_TYPES \<and> pt \<notin> set NEUTRAL_TYPES
                 then
                   (case map_of TRANSITIONS pt of
                      Some probableNext \<Rightarrow>
                        if currentType \<in> set probableNext
                        then [(15 / 100, ''probable-after-'' @ pt)]
                        else if currentType \<in> set INITIATOR_TYPES
                        then [(- (20 / 100), ''impossible-initiator-after-'' @ pt)]
                        else []
                    | None \<Rightarrow> [])
                 else []
             | None \<Rightarrow> []);
          atStart =
            (if l2_j st = 0
             then (if currentType \<in> set RESPONSE_TYPES
                   then [(- (15 / 100), ''response-at-start'')] else [])
                  @ (if currentType \<in> set INITIATOR_TYPES
                     then [(10 / 100, ''initiator-at-start'')] else [])
             else []);
          duplicate =
            (if startsWith currentType ''inicial-'' \<and> assignedInicialTypes st currentType > 0
             then [(- (25 / 100), ''duplicate-'' @ currentType)] else [])
      in transition @ atStart @ duplicate)"

definition contextBoosts :: "string \<Rightarrow> string \<Rightarrow> rat \<Rightarrow> (rat \<times> string) list" where
  "contextBoosts pdfType currentType currentConfidence =
     (if currentType = ''inicial-eef'' \<and> pdfType = ''inicial-eef''
      then [(5 / 100, ''pdf-context-confirms-eef'')] else [])
     @ (if currentType = pdfType \<and> currentConfidence < 8 / 10
        then [(10 / 100, ''pdf-segment-agreement'')] else [])"

definition countInicial :: "l2_state \<Rightarrow> string \<Rightarrow> (string \<Rightarrow> nat)" where
  "countInicial st currentType =
     (if startsWith currentType ''inicial-''
      then (assignedInicialTypes st)(currentType := assignedInicialTypes st currentType + 1)
      else assignedInicialTypes st)"

text \<open>The loop body: the segment as the loop leaves it and the updated counters.\<close>

definition l2Segment ::
  "(jstext \<Rightarrow> classification) \<Rightarrow> (regex \<Rightarrow> jstext \<Rightarrow> bool) \<Rightarrow> page list
     \<Rightarrow> classification option \<Rightarrow> l2_state \<Rightarrow> segment \<Rightarrow> segment \<times> (string \<Rightarrow> nat)" where
  "l2Segment classify regexTest pages pdfClassification st seg =
     (if doc_type seg = [] \<or> doc_type seg = ''unknown'' then (seg, assignedInicialTypes st)
      else
        let currentType = doc_type seg;
            currentConfidence =
              (case classification_confidence seg of
                 Some c \<Rightarrow> if c = 0 then 1 / 2 else c
               | None \<Rightarrow> 1 / 2);
            pdfType = (case pdfClassification of Some c \<Rightarrow> primary_type c | None \<Rightarrow> []);
            pdfConfidence =
              (case pdfClassification of
                 Some c \<Rightarrow> if cl_confidence c = 0 then 7 / 10 else cl_confidence c
               | None \<Rightarrow> 7 / 10);
            assigned = countInicial st currentType
        in if currentType = ''inicial-execfiscal'' \<and> pdfImpliesEef regexTest pdfClassification
           then (seg\<lparr>doc_type := ''inicial-eef'',
                      classification_confidence := Some (max currentConfidence pdfConfidence),
                      classification_source := ''per-segment-L2'',
                      l2_previous_type := Some currentType,
                      l2_boost := Some 0,
                      l2_reasons := Some [''pdf-context-eef-overrides-execfiscal''],
                      cascade_level := Some 2\<rparr>,
                 assigned(currentType := assigned currentType + 1))
           else
             let boosts = positionalBoosts st currentType
                            @ contextBoosts pdfType currentType currentConfidence;
                 boost = sum_list (map fst boosts);
                 reasons = map snd boosts
             in if boost = 0 then (seg, assigned)
                else
                  let newConfidence = min 1 (max 0 (round2 (currentConfidence + boost)));
                      cascade =
                        (if newConfidence < currentConfidence \<and> newConfidence < 1 / 2
                         then secondaryCandidate classify pages st seg newConfidence
                         else None)
                  in case cascade of
                       Some (secType, boostedSecondary, inds) \<Rightarrow>
                         (seg\<lparr>doc_type := secType,
                               classification_confidence := Some boostedSecondary,
                               classification_source := ''per-segment-L2'',
                               classification_indicators := Some inds,
                               l2_previous_type := Some currentType,
                               l2_boost := Some boost,
                               l2_reasons := Some reasons,
                               cascade_level := Some 2\<rparr>,
                          assigned)
                     | None \<Rightarrow>
                         (seg\<lparr>classification_confidence := Some newConfidence,
                               classification_source := ''per-segment-L2'',
                               l2_boost := Some boost,
                               l2_reasons := Some reasons,
                               cascade_level := Some 2\<rparr>,
                          assigned))"


text \<open>The loop: separators are not among the piece segments, so they are passed over
  without a step of \<open>j\<close>.\<close>

fun l2Loop ::
  "(jstext \<Rightarrow> classification) \<Rightarrow> (regex \<Rightarrow> jstext \<Rightarrow> bool) \<Rightarrow> page list
     \<Rightarrow> classification option \<Rightarrow> l2_state \<Rightarrow> segment list \<Rightarrow> segment list" where
  "l2Loop classify regexTest pages pdfClassification st [] = []"
| "l2Loop classify regexTest pages pdfClassification st (seg # rest) =
     (if seg_type seg = ''separator''
      then seg # l2Loop classify regexTest pages pdfClassification st rest
      else
        case l2Segment classify regexTest pages pdfClassification st seg of
          (seg', assigned) \<Rightarrow>
            seg' # l2Loop classify regexTest pages pdfClassification
                     \<lparr>l2_j = l2_j st + 1, l2_prevType = Some (doc_type seg'),
                      assignedInicialTypes = assigned\<rparr> rest)"

definition l2File ::
  "(jstext \<Rightarrow> classification) \<Rightarrow> (regex \<Rightarrow> jstext \<Rightarrow> bool) \<Rightarrow> page list
     \<Rightarrow> classification option \<Rightarrow> segment list \<Rightarrow> segment list" where
  "l2File classify regexTest pages pdfClassification segments =
     l2Loop classify regexTest pages pdfClassification
       \<lparr>l2_j = 0, l2_prevType = None, assignedInicialTypes = (\<lambda>t. 0)\<rparr> segments"

text \<open>Stage 5.6 over all files: each file with its segments, its extracted pages and
  its document classification.\<close>

definition stage56 ::
  "(jstext \<Rightarrow> classification) \<Rightarrow> (regex \<Rightarrow> jstext \<Rightarrow> bool)
     \<Rightarrow> (segment list \<times> page list \<times> classification option) list \<Rightarrow> segment list list" where
  "stage56 classify regexTest files =
     map (\<lambda>(segments, pages, pdfClassification).
            l2File classify regexTest pages pdfClassification segments) files"


section \<open>Document classifier (quality-profiler.js)\<close>

text \<open>
  \<open>DocumentClassifier\<close>: the table of rules, each a document type with its patterns (all
  case-insensitive) and a weight.
\<close>

record rule =
  r_type :: string
  r_patterns :: "regex list"
  r_weight :: rat

definition classifierRules :: "rule list" where
  "classifierRules =
     [
      \<lparr>r_type = ''inicial-eef'',
       r_patterns =
         [Regex ''embargos?%s+[%u00e0a]%s+execu[c%u00e7][a%u00e3]o%s+fiscal'' ''i'',
          Regex ''excelent[i%u00ed]ssim[oa]'' ''i'', Regex ''embargante'' ''i'',
          Regex ''requer%s'' ''i''],
       r_weight = 9 / 10\<rparr>,
      \<lparr>r_type = ''inicial-execfiscal'',
       r_patterns =
         [Regex ''execu[c%u00e7][a%u00e3]o%s+fiscal'' ''i'',
          Regex ''fazenda%s+(nacional|p[u%u00fa]blica|estadual|municipal)'' ''i'',
          Regex ''d[i%u00ed]vida%s+ativa'' ''i'', Regex ''citar?%s+o%s+executado'' ''i''],
       r_weight = 17 / 20\<rparr>,
      \<lparr>r_type = ''inicial-ms'',
       r_patterns =
         [Regex ''mandado%s+de%s+seguran[c%u00e7]a'' ''i'', Regex ''impetrante'' ''i'',
          Regex ''autoridade%s+coatora'' ''i'', Regex ''liminar'' ''i''],
       r_weight = 9 / 10\<rparr>,
      \<lparr>r_type = ''peticao-inicial'',
       r_patterns =
         [Regex ''excelent[i%u00ed]ssim[oa]'' ''i'', Regex ''requer%s'' ''i'',
          Regex ''qualifica[c%u00e7][a%u00e3]o%s+das?%s+partes'' ''i''],
       r_weight = 17 / 20\<rparr>,
      \<lparr>r_type = ''impugnacao'',
       r_patterns =
         [Regex ''impugna[c%u00e7][a%u00e3]o'' ''i'', Regex ''fazenda%s+nacional'' ''i'',
          Regex ''impugnante'' ''i'', Regex ''embargos?%s+improcedentes'' ''i''],
       r_weight = 17 / 20\<rparr>,
      \<lparr>r_type = ''contestacao'',
       r_patterns =
         [Regex ''contesta[c%u00e7][a%u00e3]o'' ''i'', Regex ''contesta%s'' ''i'',
          Regex ''preliminar'' ''i'', Regex ''m[%u00e9e]rito'' ''i''],
       r_weight = 4 / 5\<rparr>,
      \<lparr>r_type = ''laudo-pericial'',
       r_patterns =
         [Regex ''perito'' ''i'', Regex ''quesitos'' ''i'', Regex ''laudo%s+pericial'' ''i'',
          Regex ''per[i%u00ed]cia'' ''i'', Regex ''assist[e%u00ea]nte%s+t[e%u00e9]cnico'' ''i''],
       r_weight = 17 / 20\<rparr>,
      \<lparr>r_type = ''sentenca'',
       r_patterns =
         [Regex ''julgo'' ''i'', Regex ''procedente'' ''i'', Regex ''improcedente'' ''i'',
          Regex ''senten[c%u00e7]a'' ''i'', Regex ''vistos%s*(,|%.|%s)'' ''i''],
       r_weight = 9 / 10\<rparr>,
      \<lparr>r_type = ''sentenca-edcl'',
       r_patterns =
         [Regex ''embargos?%s+de%s+declara[c%u00e7][a%u00e3]o'' ''i'',
          Regex ''senten[c%u00e7]a'' ''i'', Regex ''acolho'' ''i'',
          Regex ''rejeito%s+os%s+embargos'' ''i''],
       r_weight = 17 / 20\<rparr>,
      \<lparr>r_type = ''edcl'',
       r_patterns =
         [Regex ''embargos?%s+de%s+declara[c%u00e7][a%u00e3]o'' ''i'',
          Regex ''omiss[a%u00e3]o'' ''i'', Regex ''contradi[c%u00e7][a%u00e3]o'' ''i'',
          Regex ''obscuridade'' ''i''],
       r_weight = 4 / 5\<rparr>,
      \<lparr>r_type = ''apelacao'',
       r_patterns =
         [Regex ''apela[c%u00e7][a%u00e3]o'' ''i'', Regex ''apelante'' ''i'',
          Regex ''apelado'' ''i'', Regex ''tribunal%s+regional'' ''i''],
       r_weight = 17 / 20\<rparr>,
      \<lparr>r_type = ''contrarrazoes'',
       r_patterns =
         [Regex ''contrarraz[o%u00f5]es'' ''i'', Regex ''contra-raz[o%u00f5]es'' ''i'',
          Regex ''apelado'' ''i'', Regex ''nega%s*r?%s+provimento'' ''i''],
       r_weight = 17 / 20\<rparr>,
      \<lparr>r_type = ''agravo'',
       r_patterns =
         [Regex ''agravo'' ''i'', Regex ''efeito%s+suspensivo'' ''i'',
          Regex ''agravo%s+de%s+instrumento'' ''i'', Regex ''agravante'' ''i''],
       r_weight = 4 / 5\<rparr>,
      \<lparr>r_type = ''recurso-especial'',
       r_patterns =
         [Regex ''recurso%s+especial'' ''i'', Regex ''superior%s+tribunal'' ''i'',
          Regex ''stj'' ''i'', Regex ''al[i%u00ed]nea'' ''i''],
       r_weight = 17 / 20\<rparr>,
      \<lparr>r_type = ''recurso-extraordinario'',
       r_patterns =
         [Regex ''recurso%s+extraordin[a%u00e1]rio'' ''i'', Regex ''supremo%s+tribunal'' ''i'',
          Regex ''stf'' ''i'', Regex ''repercuss[a%u00e3]o%s+geral'' ''i''],
       r_weight = 17 / 20\<rparr>,
      \<lparr>r_type = ''acordao'',
       r_patterns =
         [Regex ''ac[o%u00f3]rd[a%u00e3][om]'' ''i'', Regex ''desembargador'' ''i'',
          Regex ''ementa'' ''i'', Regex ''v%.?%s*u%.?'' ''i''],
       r_weight = 9 / 10\<rparr>,
      \<lparr>r_type = ''acordao-trf'',
       r_patterns =
         [Regex ''ac[o%u00f3]rd[a%u00e3][om]'' ''i'',
          Regex ''tribunal%s+regional%s+federal'' ''i'', Regex ''trf'' ''i'',
          Regex ''turma'' ''i''],
       r_weight = 9 / 10\<rparr>,
      \<lparr>r_type = ''distribuicao'',
       r_patterns =
         [Regex ''distribui[c%u00e7][a%u00e3]o'' ''i'',
          Regex ''certid[a%u00e3]o%s+de%s+distribui[c%u00e7][a%u00e3]o'' ''i'',
          Regex ''relator'' ''i'', Regex ''c[a%u00e2]mara'' ''i''],
       r_weight = 3 / 4\<rparr>,
      \<lparr>r_type = ''pauta'',
       r_patterns =
         [Regex ''pauta'' ''i'', Regex ''inclus[a%u00e3]o%s+em%s+pauta'' ''i'',
          Regex ''sess[a%u00e3]o%s+de%s+julgamento'' ''i'', Regex ''designo'' ''i''],
       r_weight = 3 / 4\<rparr>,
      \<lparr>r_type = ''auto-infracao'',
       r_patterns =
         [Regex ''auto%s+de%s+infra[c%u00e7][a%u00e3]o'' ''i'',
          Regex ''penalidade%s+(isolada|apl[i%u00ed]cada)'' ''i'',
          Regex ''multa%s+(de|no%s+valor)'' ''i'',
          Regex ''notifica[c%u00e7][a%u00e3]o%s+de%s+lan[c%u00e7]amento'' ''i''],
       r_weight = 17 / 20\<rparr>,
      \<lparr>r_type = ''defesa-admin'',
       r_patterns =
         [Regex ''impugna[c%u00e7][a%u00e3]o%s+administrativa'' ''i'',
          Regex ''defesa%s+administrativa'' ''i'',
          Regex ''delegacia%s+da%s+receita%s+federal'' ''i'', Regex ''drj'' ''i''],
       r_weight = 4 / 5\<rparr>,
      \<lparr>r_type = ''impugnacao-admin'',
       r_patterns =
         [Regex ''impugna[c%u00e7][a%u00e3]o%s+ao%s+auto'' ''i'',
          Regex ''impugna[c%u00e7][a%u00e3]o%s+administrativa'' ''i'',
          Regex ''delegacia%s+de%s+julgamento'' ''i''],
       r_weight = 4 / 5\<rparr>,
      \<lparr>r_type = ''decisao-admin-1inst'',
       r_patterns =
         [Regex ''delegacia%s+da%s+receita%s+federal%s+de%s+julgamento'' ''i'',
          Regex ''drj'' ''i'', Regex ''decis[a%u00e3]o%s+administrativa'' ''i'',
          Regex ''julgamento%s+administrativo'' ''i''],
       r_weight = 4 / 5\<rparr>,
      \<lparr>r_type = ''recurso-admin'',
       r_patterns =
         [Regex ''recurso%s+(volunt[a%u00e1]rio|administrativo)'' ''i'',
          Regex ''conselho%s+administrativo'' ''i'', Regex ''carf'' ''i''],
       r_weight = 17 / 20\<rparr>,
      \<lparr>r_type = ''recurso-carf'',
       r_patterns =
         [Regex ''carf'' ''i'',
          Regex ''conselho%s+administrativo%s+de%s+recursos%s+fiscais'' ''i'',
          Regex ''recurso%s+volunt[a%u00e1]rio'' ''i'', Regex ''recorrente'' ''i''],
       r_weight = 17 / 20\<rparr>,
      \<lparr>r_type = ''contrarrazoes-admin'',
       r_patterns =
         [Regex ''contrarraz[o%u00f5]es'' ''i'', Regex ''carf'' ''i'',
          Regex ''recurso%s+(volunt[a%u00e1]rio|administrativo)'' ''i''],
       r_weight = 4 / 5\<rparr>,
      \<lparr>r_type = ''resposta-fazenda'',
       r_patterns =
         [Regex ''procuradoria'' ''i'', Regex ''pgfn'' ''i'',
          Regex ''resposta%s+ao%s+recurso'' ''i'',
          Regex ''contrarraz[o%u00f5]es%s+da%s+fazenda'' ''i''],
       r_weight = 4 / 5\<rparr>,
      \<lparr>r_type = ''acordao-carf'',
       r_patterns =
         [Regex ''ac[o%u00f3]rd[a%u00e3][om]'' ''i'', Regex ''carf'' ''i'',
          Regex ''conselho%s+administrativo%s+de%s+recursos%s+fiscais'' ''i'',
          Regex ''c[a%u00e2]mara'' ''i''],
       r_weight = 9 / 10\<rparr>,
      \<lparr>r_type = ''acordao-csrf'',
       r_patterns =
         [Regex ''csrf'' ''i'', Regex ''c[a%u00e2]mara%s+superior'' ''i'',
          Regex ''recurso%s+especial%s+do%s+contribuinte'' ''i'',
          Regex ''recurso%s+especial%s+da%s+fazenda'' ''i''],
       r_weight = 9 / 10\<rparr>,
      \<lparr>r_type = ''cda'',
       r_patterns =
         [Regex ''certid[a%u00e3]o%s+de%s+d[i%u00ed]vida%s+ativa'' ''i'', Regex ''cda'' ''i'',
          Regex ''inscri[c%u00e7][a%u00e3]o%s+em%s+d[i%u00ed]vida%s+ativa'' ''i''],
       r_weight = 17 / 20\<rparr>,
      \<lparr>r_type = ''laudo-constitutivo'',
       r_patterns =
         [Regex ''laudo%s+constitutivo'' ''i'', Regex ''laudo%s+const'' ''i'',
          Regex ''superintend[e%u00ea]ncia'' ''i'', Regex ''sudene'' ''i'',
          Regex ''adene'' ''i'', Regex ''incentivo%s+fiscal'' ''i'',
          Regex ''redu[c%u00e7][a%u00e3]o%s+do%s+imposto'' ''i'',
          Regex ''redu[c%u00e7][a%u00e3]o%s+do%s+irpj'' ''i''],
       r_weight = 17 / 20\<rparr>,
      \<lparr>r_type = ''documento-fiscal'',
       r_patterns =
         [Regex ''nota%s+fiscal'' ''i'', Regex ''dan?fe'' ''i'',
          Regex ''demonstrativo%s+fiscal'' ''i'',
          Regex ''guia%s+de%s+(recolhimento|pagamento)'' ''i'', Regex ''darf'' ''i''],
       r_weight = 3 / 4\<rparr>,
      \<lparr>r_type = ''parecer-tecnico'',
       r_patterns =
         [Regex ''parecer%s+t[e%u00e9]cnico'' ''i'', Regex ''laudo%s+t[e%u00e9]cnico'' ''i'',
          Regex ''relat[o%u00f3]rio%s+t[e%u00e9]cnico'' ''i'',
          Regex ''an[a%u00e1]lise%s+t[e%u00e9]cnica'' ''i''],
       r_weight = 4 / 5\<rparr>,
      \<lparr>r_type = ''decisao-interlocutoria'',
       r_patterns =
         [Regex ''defiro'' ''i'', Regex ''indefiro'' ''i'', Regex ''tutela'' ''i'',
          Regex ''decis[a%u00e3]o%s+interlocut[o%u00f3]ria'' ''i''],
       r_weight = 3 / 4\<rparr>,
      \<lparr>r_type = ''despacho'',
       r_patterns =
         [Regex ''cite-se'' ''i'', Regex ''intime-se'' ''i'', Regex ''despacho'' ''i'',
          Regex ''mero%s+expediente'' ''i''],
       r_weight = 7 / 10\<rparr>,
      \<lparr>r_type = ''parecer-mp'',
       r_patterns =
         [Regex ''minist[e%u00e9]rio%s+p[u%u00fa]blico'' ''i'', Regex ''opina'' ''i'',
          Regex ''promotor'' ''i'', Regex ''parquet'' ''i''],
       r_weight = 4 / 5\<rparr>,
      \<lparr>r_type = ''parecer-pgfn'',
       r_patterns =
         [Regex ''pgfn'' ''i'', Regex ''procuradoria[- ]geral%s+da%s+fazenda'' ''i'',
          Regex ''parecer%s+pgfn'' ''i''],
       r_weight = 17 / 20\<rparr>,
      \<lparr>r_type = ''parecer-agu'',
       r_patterns =
         [Regex ''agu'' ''i'', Regex ''advocacia[- ]geral%s+da%s+uni[a%u00e3]o'' ''i'',
          Regex ''parecer%s+agu'' ''i''],
       r_weight = 17 / 20\<rparr>,
      \<lparr>r_type = ''oficio'',
       r_patterns =
         [Regex ''of[i%u00ed]cio%s+n[%u00ba%u00b0.%s]'' ''i'',
          Regex ''of[i%u00ed]cio%s+de%s+n[%u00ba%u00b0.%s]'' ''i'',
          Regex ''of[i%u00ed]c[ri]o%b'' ''i'', Regex ''cumprimentos'' ''i'',
          Regex ''atenciosamente'' ''i'', Regex ''prezados?%s+senhor'' ''i'',
          Regex ''senhor%s+(delegado|secret[a%u00e1]rio|diretor|superintendente)'' ''i''],
       r_weight = 7 / 10\<rparr>,
      \<lparr>r_type = ''portaria'',
       r_patterns =
         [Regex ''portaria%s+n[%u00ba%u00b0]'' ''i'', Regex ''resolve:'' ''i'',
          Regex ''o%s+ministro'' ''i'', Regex ''o%s+superintendente'' ''i''],
       r_weight = 3 / 4\<rparr>,
      \<lparr>r_type = ''memorando'',
       r_patterns =
         [Regex ''memorando'' ''i'', Regex ''memo%s+n[%u00ba%u00b0.%s]'' ''i'',
          Regex ''memo%s+%d{1,4}%s*[%/%-]%s*%d{2,4}'' ''i'',
          Regex ''comunica[c%u00e7][a%u00e3]o%s+interna'' ''i''],
       r_weight = 7 / 10\<rparr>,
      \<lparr>r_type = ''certidao'',
       r_patterns =
         [Regex ''certifico'' ''i'', Regex ''dou%s+f[e%u00e9]'' ''i'',
          Regex ''certid[a%u00e3]o'' ''i''],
       r_weight = 4 / 5\<rparr>,
      \<lparr>r_type = ''certidao-publicacao'',
       r_patterns =
         [Regex ''certid[a%u00e3]o%s+de%s+publica[c%u00e7][a%u00e3]o'' ''i'',
          Regex ''publicado%s+no%s+di[a%u00e1]rio'' ''i'',
          Regex ''intima[c%u00e7][a%u00e3]o%s+eletr[o%u00f4]nica'' ''i''],
       r_weight = 3 / 4\<rparr>,
      \<lparr>r_type = ''lixo-procuracao'',
       r_patterns =
         [Regex ''procura[c%u00e7][a%u00e3]o'' ''i'', Regex ''poderes'' ''i'',
          Regex ''substabelecer'' ''i'', Regex ''outorg'' ''i'', Regex ''ad%s+judicia'' ''i''],
       r_weight = 4 / 5\<rparr>,
      \<lparr>r_type = ''lixo-substabelecimento'',
       r_patterns =
         [Regex ''substabelecimento'' ''i'', Regex ''substabelece'' ''i''],
       r_weight = 4 / 5\<rparr>,
      \<lparr>r_type = ''lixo-societario'',
       r_patterns =
         [Regex ''contrato%s+social'' ''i'', Regex ''estatuto%s+social'' ''i'',
          Regex ''ata%s+de%s+(assembleia|reuni[a%u00e3]o)'' ''i'',
          Regex ''junta%s+comercial'' ''i'', Regex ''jucesp'' ''i'',
          Regex ''altera[c%u00e7][a%u00e3]o%s+contratual'' ''i''],
       r_weight = 4 / 5\<rparr>,
      \<lparr>r_type = ''lixo-fianca'',
       r_patterns =
         [Regex ''fian[c%u00e7]a%s+banc[a%u00e1]ria'' ''i'',
          Regex ''carta%s+de%s+fian[c%u00e7]a'' ''i'',
          Regex ''garantia%s+banc[a%u00e1]ria'' ''i'', Regex ''seguro[- ]garantia'' ''i''],
       r_weight = 4 / 5\<rparr>,
      \<lparr>r_type = ''lixo-capa'',
       r_patterns =
         [Regex ''capa%s+(do%s+)?processo'' ''i'', Regex ''autuamento'' ''i'',
          Regex ''termo%s+de%s+autura[c%u00e7][a%u00e3]o'' ''i''],
       r_weight = 3 / 4\<rparr>,
      \<lparr>r_type = ''lixo-certidao-publicacao'',
       r_patterns =
         [Regex ''certid[a%u00e3]o%s+de%s+publica[c%u00e7][a%u00e3]o'' ''i'',
          Regex ''publicado%s+no%s+di[a%u00e1]rio'' ''i'',
          Regex ''intima[c%u00e7][a%u00e3]o%s+gen[e%u00e9]rica'' ''i''],
       r_weight = 7 / 10\<rparr>,
      \<lparr>r_type = ''lixo-ato-ordinatorio'',
       r_patterns =
         [Regex ''ato%s+ordinat[o%u00f3]rio'' ''i'', Regex ''cumpra-se'' ''i'',
          Regex ''intimem-se'' ''i'', Regex ''remeta-se'' ''i''],
       r_weight = 7 / 10\<rparr>,
      \<lparr>r_type = ''lixo-termo-abertura'',
       r_patterns =
         [Regex ''termo%s+de%s+(abertura|encerramento)'' ''i'', Regex ''volume%s+%d'' ''i''],
       r_weight = 7 / 10\<rparr>]"

text \<open>The table inside \<open>classify\<close> that tells the patterns which confirm a type from the
  ones that only mention an entity.\<close>

record disamb_rule =
  structural :: "regex list"
  entityOnly :: "regex list"

definition disambiguationRules :: "(string \<times> disamb_rule) list" where
  "disambiguationRules =
     [
      (''laudo-constitutivo'',
       \<lparr>structural =
          [Regex ''laudo%s+constitutivo'' ''i'',
           Regex ''redu[c%u00e7][a%u00e3]o%s+do%s+imposto'' ''i'',
           Regex ''redu[c%u00e7][a%u00e3]o%s+do%s+irpj'' ''i'',
           Regex ''incentivo%s+fiscal'' ''i'', Regex ''superintend[e%u00ea]ncia'' ''i''],
        entityOnly =
          [Regex ''sudene'' ''i'', Regex ''adene'' ''i'']\<rparr>),
      (''acordao'',
       \<lparr>structural =
          [Regex ''ac[o%u00f3]rd[a%u00e3][om]'' ''i'', Regex ''ementa'' ''i''],
        entityOnly =
          [Regex ''desembargador'' ''i'', Regex ''v%.?%s*u%.?'' ''i'']\<rparr>),
      (''acordao-trf'',
       \<lparr>structural =
          [Regex ''ac[o%u00f3]rd[a%u00e3][om]'' ''i'',
           Regex ''tribunal%s+regional%s+federal'' ''i''],
        entityOnly =
          [Regex ''trf'' ''i'', Regex ''turma'' ''i'']\<rparr>),
      (''acordao-carf'',
       \<lparr>structural =
          [Regex ''ac[o%u00f3]rd[a%u00e3][om]'' ''i'',
           Regex ''conselho%s+administrativo%s+de%s+recursos%s+fiscais'' ''i''],
        entityOnly =
          [Regex ''carf'' ''i'', Regex ''c[a%u00e2]mara'' ''i'']\<rparr>),
      (''acordao-csrf'',
       \<lparr>structural =
          [Regex ''csrf'' ''i'', Regex ''c[a%u00e2]mara%s+superior'' ''i''],
        entityOnly =
          []\<rparr>),
      (''agravo'',
       \<lparr>structural =
          [Regex ''agravo%s+de%s+instrumento'' ''i'', Regex ''agravante'' ''i''],
        entityOnly =
          [Regex ''agravo'' ''i'', Regex ''efeito%s+suspensivo'' ''i'']\<rparr>),
      (''recurso-carf'',
       \<lparr>structural =
          [Regex ''recurso%s+volunt[a%u00e1]rio'' ''i'',
           Regex ''conselho%s+administrativo%s+de%s+recursos%s+fiscais'' ''i''],
        entityOnly =
          [Regex ''carf'' ''i'']\<rparr>),
      (''parecer-agu'',
       \<lparr>structural =
          [Regex ''parecer%s+agu'' ''i'', Regex ''advocacia[- ]geral%s+da%s+uni[a%u00e3]o'' ''i''],
        entityOnly =
          [Regex ''agu'' ''i'']\<rparr>),
      (''parecer-pgfn'',
       \<lparr>structural =
          [Regex ''parecer%s+pgfn'' ''i'', Regex ''procuradoria[- ]geral%s+da%s+fazenda'' ''i''],
        entityOnly =
          [Regex ''pgfn'' ''i'']\<rparr>),
      (''resposta-fazenda'',
       \<lparr>structural =
          [Regex ''resposta%s+ao%s+recurso'' ''i'',
           Regex ''contrarraz[o%u00f5]es%s+da%s+fazenda'' ''i''],
        entityOnly =
          [Regex ''procuradoria'' ''i'', Regex ''pgfn'' ''i'']\<rparr>),
      (''recurso-admin'',
       \<lparr>structural =
          [Regex ''recurso%s+(volunt[a%u00e1]rio|administrativo)'' ''i'',
           Regex ''conselho%s+administrativo'' ''i''],
        entityOnly =
          [Regex ''carf'' ''i'']\<rparr>),
      (''distribuicao'',
       \<lparr>structural =
          [Regex ''certid[a%u00e3]o%s+de%s+distribui[c%u00e7][a%u00e3]o'' ''i''],
        entityOnly =
          [Regex ''distribui[c%u00e7][a%u00e3]o'' ''i'', Regex ''relator'' ''i'',
           Regex ''c[a%u00e2]mara'' ''i'']\<rparr>)]"

definition specificityOrder :: "string list" where
  "specificityOrder =
     [''inicial-eef'', ''inicial-execfiscal'', ''inicial-ms'', ''acordao-carf'',
      ''acordao-csrf'', ''acordao-trf'', ''sentenca-edcl'', ''recurso-carf'',
      ''impugnacao-admin'', ''defesa-admin'', ''decisao-admin-1inst'', ''parecer-pgfn'',
      ''parecer-agu'', ''lixo-procuracao'', ''lixo-substabelecimento'', ''lixo-societario'',
      ''lixo-fianca'', ''lixo-capa'', ''lixo-certidao-publicacao'', ''lixo-ato-ordinatorio'',
      ''lixo-termo-abertura'', ''certidao-publicacao'']"

fun regex_source :: "regex \<Rightarrow> string" where
  "regex_source (Regex s f) = s"

record score =
  sc_type :: string
  sc_confidence :: rat
  sc_indicators :: "string list"
  sc_disambiguation :: "string option"

text \<open>The elements of a \<open>Set\<close> built from a list, in insertion order: the first
  occurrence of each element.\<close>

definition setOrder :: "'a list \<Rightarrow> 'a list" where
  "setOrder xs = rev (remdups (rev xs))"

text \<open>The heading is the first five and the tail the last three of the trimmed lines of
  more than three characters.\<close>

definition nonEmptyLines :: "jstext \<Rightarrow> jstext list" where
  "nonEmptyLines cleanedText =
     filter (\<lambda>l. length l > 3) (map js_trim (js_split 10 cleanedText))"

definition classifierHeading :: "jstext \<Rightarrow> jstext" where
  "classifierHeading cleanedText = js_join [10] (take 5 (nonEmptyLines cleanedText))"

definition classifierTail :: "jstext \<Rightarrow> jstext" where
  "classifierTail cleanedText =
     (let ls = nonEmptyLines cleanedText in js_join [10] (drop (length ls - 3) ls))"

text \<open>The three lists of matches of a rule: in the whole cleaned text, and in the heading
  and the tail when these are not empty.\<close>

definition bodyMatches :: "(regex \<Rightarrow> jstext \<Rightarrow> bool) \<Rightarrow> jstext \<Rightarrow> rule \<Rightarrow> regex list" where
  "bodyMatches regexTest cleanedText rule =
     filter (\<lambda>p. regexTest p cleanedText) (r_patterns rule)"

definition scopeMatches :: "(regex \<Rightarrow> jstext \<Rightarrow> bool) \<Rightarrow> jstext \<Rightarrow> rule \<Rightarrow> regex list" where
  "scopeMatches regexTest scope rule =
     (if scope \<noteq> [] then filter (\<lambda>p. regexTest p scope) (r_patterns rule) else [])"

definition allMatchSources ::
  "(regex \<Rightarrow> jstext \<Rightarrow> bool) \<Rightarrow> jstext \<Rightarrow> jstext \<Rightarrow> jstext \<Rightarrow> rule \<Rightarrow> string list" where
  "allMatchSources regexTest cleanedText heading tail rule =
     setOrder (map regex_source (bodyMatches regexTest cleanedText rule)
               @ map regex_source (scopeMatches regexTest heading rule)
               @ map regex_source (scopeMatches regexTest tail rule))"

definition rawConfidence ::
  "(regex \<Rightarrow> jstext \<Rightarrow> bool) \<Rightarrow> jstext \<Rightarrow> jstext \<Rightarrow> jstext \<Rightarrow> rule \<Rightarrow> rat" where
  "rawConfidence regexTest cleanedText heading tail rule =
     (let bodyRatio = of_nat (length (bodyMatches regexTest cleanedText rule))
                      / of_nat (length (r_patterns rule));
          headingBoost =
            min (3 / 10) (of_nat (length (scopeMatches regexTest heading rule)) * (15 / 100));
          tailBoost =
            min (2 / 10) (of_nat (length (scopeMatches regexTest tail rule)) * (1 / 10))
      in bodyRatio * r_weight rule + headingBoost + tailBoost)"

text \<open>The first loop of \<open>classify\<close>: a rule with a match gets a score.\<close>

definition scoreRule ::
  "(regex \<Rightarrow> jstext \<Rightarrow> bool) \<Rightarrow> jstext \<Rightarrow> jstext \<Rightarrow> jstext \<Rightarrow> rule \<Rightarrow> score option" where
  "scoreRule regexTest cleanedText heading tail rule =
     (let sources = allMatchSources regexTest cleanedText heading tail rule
      in if sources \<noteq> []
         then Some \<lparr>sc_type = r_type rule,
                    sc_confidence =
                      round2 (min 1 (rawConfidence regexTest cleanedText heading tail rule)),
                    sc_indicators = sources, sc_disambiguation = None\<rparr>
         else None)"

text \<open>The second loop: the penalty of a type of the disambiguation table.\<close>

definition structuralIn :: "(regex \<Rightarrow> jstext \<Rightarrow> bool) \<Rightarrow> jstext \<Rightarrow> disamb_rule \<Rightarrow> bool" where
  "structuralIn regexTest scope rule = list_ex (\<lambda>p. regexTest p scope) (structural rule)"

definition allMatchesAreEntityOnly ::
  "(regex \<Rightarrow> jstext \<Rightarrow> bool) \<Rightarrow> disamb_rule \<Rightarrow> string list \<Rightarrow> bool" where
  "allMatchesAreEntityOnly regexTest rule indicators =
     (let matchedIndicators = map (\<lambda>src. Regex src ''i'') indicators
      in entityOnly rule \<noteq> [] \<and>
         list_all (\<lambda>m. list_ex (\<lambda>e. regex_source e = regex_source m
                                    \<or> regexTest e (js_source (regex_source m)))
                           (entityOnly rule))
           matchedIndicators)"

definition disambiguate ::
  "(regex \<Rightarrow> jstext \<Rightarrow> bool) \<Rightarrow> jstext \<Rightarrow> jstext \<Rightarrow> score \<Rightarrow> score" where
  "disambiguate regexTest cleanedText heading score =
     (case map_of disambiguationRules (sc_type score) of
        None \<Rightarrow> score
      | Some rule \<Rightarrow>
          let hasStructuralInHeading = (heading \<noteq> [] \<and> structuralIn regexTest heading rule)
          in if hasStructuralInHeading then score
             else
               let hasStructuralInBody = structuralIn regexTest cleanedText rule
               in if allMatchesAreEntityOnly regexTest rule (sc_indicators score)
                     \<and> \<not> hasStructuralInBody
                  then score\<lparr>sc_confidence := round2 (sc_confidence score * (3 / 10)),
                             sc_disambiguation := Some ''entity-mention-only''\<rparr>
                  else if \<not> hasStructuralInHeading \<and> hasStructuralInBody
                  then score\<lparr>sc_confidence := round2 (sc_confidence score * (7 / 10)),
                             sc_disambiguation := Some ''structural-not-in-heading''\<rparr>
                  else score)"

text \<open>The third loop: the bonus of the more specific types.\<close>

definition applySpecificity :: "score \<Rightarrow> score" where
  "applySpecificity score =
     (if sc_type score \<in> set specificityOrder
      then score\<lparr>sc_confidence := round2 (min 1 (sc_confidence score + 5 / 100))\<rparr>
      else score)"

definition whitelist :: "string \<Rightarrow> string" where
  "whitelist t = (if t \<in> set VALID_TYPES then t else ''unknown'')"

definition unknownClassification :: classification where
  "unknownClassification =
     \<lparr>primary_type = ''unknown'', cl_confidence = 0, cl_indicators = [],
      secondary_type = None, secondary_confidence = None\<rparr>"

text \<open>\<open>classify\<close>. The options argument is not read. The scores are sorted by descending
  confidence with a stable sort; the result does not carry the disambiguation field.\<close>

definition classify ::
  "(jstext \<Rightarrow> jstext) \<Rightarrow> (regex \<Rightarrow> jstext \<Rightarrow> bool) \<Rightarrow> jstext \<Rightarrow> classification" where
  "classify stripPJeBlocks regexTest text =
     (if length (js_trim text) < 50 then unknownClassification
      else
        let cleanedText = stripPJeBlocks text;
            heading = classifierHeading cleanedText;
            tail = classifierTail cleanedText;
            scores = List.map_filter (scoreRule regexTest cleanedText heading tail)
                       classifierRules;
            scores = map (disambiguate regexTest cleanedText heading) scores;
            scores = map applySpecificity scores;
            scores = sort_key (\<lambda>s. - sc_confidence s) scores
        in case scores of
             [] \<Rightarrow> unknownClassification
           | s0 # rest \<Rightarrow>
               \<lparr>primary_type = whitelist (sc_type s0),
                cl_confidence = sc_confidence s0,
                cl_indicators = sc_indicators s0,
                secondary_type =
                  (case rest of
                     s1 # others \<Rightarrow>
                       if sc_confidence s0 < 8 / 10 then Some (whitelist (sc_type s1)) else None
                   | [] \<Rightarrow> None),
                secondary_confidence =
                  (case rest of
                     s1 # others \<Rightarrow>
                       if sc_confidence s0 < 8 / 10 then Some (sc_confidence s1) else None
                   | [] \<Rightarrow> None)\<rparr>)"


section \<open>Sample inputs\<close>

text \<open>
  Two page texts used in the concrete evaluations. The first is one word of sixty
  letters: readability 55, below the threshold of 60, so the page is degraded. The
  second is a plain Portuguese sentence: readability 75, no garbage character, and none
  of the seven signals scores a point on it (all its long words are in the dictionary),
  so the page is clean.
\<close>

definition sample_degraded_text :: jstext where
  "sample_degraded_text =
     map of_char ''aaaaaaaaaaaaaaaaaaaaaaaaaaaaaaaaaaaaaaaaaaaaaaaaaaaaaaaaaaaa''"

definition sample_clean_text :: jstext where
  "sample_clean_text =
     map of_char ''o processo fiscal federal tem valor de lei para esta data e para este caso''"

definition sample_segment :: "string \<Rightarrow> string \<Rightarrow> nat \<Rightarrow> nat \<Rightarrow> segment" where
  "sample_segment t d a b =
     \<lparr>segment_id = ''seg-001'', seg_type = t, doc_type = d,
      classification_source = ''boundary-rules'', page_start = a, page_end = b,
      seg_confidence = 9 / 10, boundary_markers = [],
      classification_confidence = None, classification_indicators = None,
      l2_previous_type = None, l2_boost = None, l2_reasons = None, cascade_level = None\<rparr>"

text \<open>A file system probe that succeeds on every path; the hash of a file is its path, so
  that no two files are duplicates.\<close>

definition sample_probe :: "string \<Rightarrow> string + file_facts" where
  "sample_probe p =
     Inr \<lparr>ff_size = 1024, ff_modified = ''2026-02-16T00:00:00.000Z'', ff_sha256 = p,
          ff_sha256_4k = p\<rparr>"


definition sample_page :: "nat \<Rightarrow> jstext \<Rightarrow> page" where
  "sample_page n t =
     \<lparr>page_number = n, page_text = t, page_confidence = 95 / 100,
      page_method = ''fast-parse-poppler'', page_empty = (length t < 50),
      rotation_applied = None, word_garbage_score = None, ocr_replaced = None,
      ocr_fallback_to_fp = None\<rparr>"











section \<open>Evaluating the rounding\<close>

lemma js_round_frac:
  assumes "0 < b"
  shows "js_round (of_int a / of_int b) = (2 * a + b) div (2 * b)"
proof -
  have "(of_int a / of_int b + 1 / 2 :: rat) = of_int (2 * a + b) / of_int (2 * b)"
    using assms by (simp add: field_simps)
  then show ?thesis
    unfolding js_round_def by (simp only: floor_divide_of_int_eq)
qed

lemma js_round_numeral_frac [simp]:
  "js_round (numeral a / numeral b) = (2 * numeral a + numeral b) div (2 * numeral b)"
  using js_round_frac [of "numeral b" "numeral a"] by simp

lemma js_round_numeral [simp]: "js_round (numeral a) = numeral a"
  by (simp add: js_round_def floor_eq_iff)

lemma js_round_zero [simp]: "js_round 0 = 0"
  by (simp add: js_round_def floor_eq_iff)

lemma js_round_one [simp]: "js_round 1 = 1"
  by (simp add: js_round_def floor_eq_iff)

lemma js_round_of_int [simp]: "js_round (of_int k) = k"
  by (simp add: js_round_def floor_eq_iff)

lemma js_round_of_nat [simp]: "js_round (of_nat n) = int n"
  by (simp add: js_round_def floor_eq_iff)


section \<open>Properties of the garbage score\<close>









section \<open>Evaluating the sample pages\<close>

lemma sample_degraded_facts:
  "length sample_degraded_text = 60"
  "sample_degraded_text \<noteq> []"
  "js_trim sample_degraded_text = sample_degraded_text"
  "filter (\<lambda>w. w \<noteq> []) (js_split_ws sample_degraded_text) = [sample_degraded_text]"
  "filter (\<lambda>l. js_trim l \<noteq> []) (js_split 10 sample_degraded_text) = [sample_degraded_text]"
  "filter printableLatin sample_degraded_text = sample_degraded_text"
  "filter garbageChar sample_degraded_text = []"
  unfolding sample_degraded_text_def js_trim_def js_split_ws_def js_split_def printableLatin_def
    garbageChar_def
  by (simp_all add: js_ws_def)

lemma sample_clean_facts:
  "length sample_clean_text = 74"
  "sample_clean_text \<noteq> []"
  "js_trim sample_clean_text = sample_clean_text"
  "length (filter (\<lambda>w. w \<noteq> []) (js_split_ws sample_clean_text)) = 15"
  "filter (\<lambda>l. js_trim l \<noteq> []) (js_split 10 sample_clean_text) = [sample_clean_text]"
  "filter printableLatin sample_clean_text = sample_clean_text"
  "filter garbageChar sample_clean_text = []"
  unfolding sample_clean_text_def js_trim_def js_split_ws_def js_split_def printableLatin_def
    garbageChar_def
  by (simp_all add: js_ws_def)

lemma readability_sample_degraded: "calculateReadability sample_degraded_text (Suc 0) = 55"
  unfolding calculateReadability_def Let_def
  by (simp add: sample_degraded_facts densityScore_def wordQualityScore_def
      lineStructureScore_def)

lemma readability_sample_clean: "calculateReadability sample_clean_text (Suc 0) = 75"
  unfolding calculateReadability_def Let_def
  by (simp add: sample_clean_facts densityScore_def wordQualityScore_def
      lineStructureScore_def)

lemma garbage_sample_degraded:
  "detectWordLevelGarbage (\<lambda>t. t) (\<lambda>t ws. 0) sample_degraded_text = 0"
  unfolding detectWordLevelGarbage_def Let_def by (simp add: sample_degraded_facts)

lemma garbage_sample_clean:
  "detectWordLevelGarbage (\<lambda>t. t) (\<lambda>t ws. 0) sample_clean_text = 0"
  unfolding detectWordLevelGarbage_def Let_def by (simp add: sample_clean_facts)

lemma noise_sample_degraded:
  "detectNoiseLevel (\<lambda>t. t) (\<lambda>t ws. 0) sample_degraded_text = Low"
  unfolding detectNoiseLevel_def Let_def
  by (simp add: sample_degraded_facts garbage_sample_degraded)

lemma noise_sample_clean:
  "detectNoiseLevel (\<lambda>t. t) (\<lambda>t ws. 0) sample_clean_text = Low"
  unfolding detectNoiseLevel_def Let_def
  by (simp add: sample_clean_facts garbage_sample_clean)

lemma profile_sample_degraded:
  "profilePage (\<lambda>t. t) (\<lambda>t ws. 0) (sample_page n sample_degraded_text) =
     \<lparr>pp_page_number = n, pp_readability_score = 55, pp_noise_level = Low,
      pp_word_garbage_score = 0, pp_quality_tier = TierC, pp_char_count = 60,
      pp_is_degraded = True, pp_empty = False, pp_propagated = None\<rparr>"
  unfolding profilePage_def sample_page_def Let_def
  by (simp add: getQualityTier_def round2_def readability_sample_degraded
      garbage_sample_degraded noise_sample_degraded sample_degraded_facts)

lemma profile_sample_clean:
  "profilePage (\<lambda>t. t) (\<lambda>t ws. 0) (sample_page n sample_clean_text) =
     \<lparr>pp_page_number = n, pp_readability_score = 75, pp_noise_level = Low,
      pp_word_garbage_score = 0, pp_quality_tier = TierB, pp_char_count = 74,
      pp_is_degraded = False, pp_empty = False, pp_propagated = None\<rparr>"
  unfolding profilePage_def sample_page_def Let_def
  by (simp add: getQualityTier_def round2_def readability_sample_clean
      garbage_sample_clean noise_sample_clean sample_clean_facts)


section \<open>Propagation of the degraded flag\<close>

lemma fresh_profile_not_propagated: "pp_propagated (profilePage sp sg pg) = None"
  by (simp add: profilePage_def Let_def)

lemma propagate_above_half:
  assumes "\<forall>p \<in> set profiles. pp_propagated p = None"
    and "length (filter (\<lambda>p. \<not> pp_empty p) profiles)
           < 2 * length (filter pp_is_degraded (filter (\<lambda>p. \<not> pp_empty p) profiles))"
  shows "propagateDegraded profiles =
     map (\<lambda>p. if pp_empty p then p
               else p\<lparr>pp_is_degraded := True,
                      pp_propagated :=
                        Some (length (filter pp_is_degraded (filter (\<lambda>p. \<not> pp_empty p) profiles))
                               < length (filter (\<lambda>p. \<not> pp_empty p) profiles))\<rparr>) profiles"
proof -
  have pos: "0 < length (filter (\<lambda>p. \<not> pp_empty p) profiles)"
    using assms(2) by (cases "filter (\<lambda>p. \<not> pp_empty p) profiles") auto
  show ?thesis
    unfolding propagateDegraded_def Let_def
    using assms pos by (auto intro!: map_cong)
qed

lemma propagate_below_half:
  assumes "2 * length (filter pp_is_degraded (filter (\<lambda>p. \<not> pp_empty p) profiles))
             < length (filter (\<lambda>p. \<not> pp_empty p) profiles)"
  shows "propagateDegraded profiles = profiles"
  using assms unfolding propagateDegraded_def Let_def by simp

text \<open>
  C4, as the code has it. Let \<open>n\<close> be the number of non-empty pages and \<open>d\<close> the number
  of those that are individually degraded. If more than half of the non-empty pages are
  degraded (\<open>2 d > n\<close>), every non-empty page is marked degraded and every non-empty page
  receives the same \<open>propagated\<close> flag, \<open>d < n\<close>; empty pages are left as they are. If
  fewer than half are degraded, nothing is changed. (The case of exactly one half is
  not part of the statement.)
\<close>

theorem propagation_by_majority:
  "(length (filter (\<lambda>p. \<not> pp_empty p) (map (profilePage sp sg) pages))
      < 2 * length (filter pp_is_degraded
              (filter (\<lambda>p. \<not> pp_empty p) (map (profilePage sp sg) pages))) \<longrightarrow>
    profilePages sp sg pages =
      map (\<lambda>p. if pp_empty p then p
                else p\<lparr>pp_is_degraded := True,
                       pp_propagated :=
                         Some (length (filter pp_is_degraded
                                 (filter (\<lambda>p. \<not> pp_empty p) (map (profilePage sp sg) pages)))
                               < length (filter (\<lambda>p. \<not> pp_empty p)
                                   (map (profilePage sp sg) pages)))\<rparr>)
          (map (profilePage sp sg) pages))
   \<and> (2 * length (filter pp_is_degraded
              (filter (\<lambda>p. \<not> pp_empty p) (map (profilePage sp sg) pages)))
        < length (filter (\<lambda>p. \<not> pp_empty p) (map (profilePage sp sg) pages)) \<longrightarrow>
      profilePages sp sg pages = map (profilePage sp sg) pages)"
proof -
  have fresh: "\<forall>p \<in> set (map (profilePage sp sg) pages). pp_propagated p = None"
    by (auto simp: fresh_profile_not_propagated)
  show ?thesis
    unfolding profilePages_def
    using propagate_above_half [OF fresh] propagate_below_half [of "map (profilePage sp sg) pages"]
    by blast
qed

theorem propagation_by_majority_witness:
  "profilePages (\<lambda>t. t) (\<lambda>t ws. 0)
     [sample_page 1 sample_degraded_text, sample_page 2 sample_degraded_text,
      sample_page 3 sample_clean_text] =
     [\<lparr>pp_page_number = 1, pp_readability_score = 55, pp_noise_level = Low,
       pp_word_garbage_score = 0, pp_quality_tier = TierC, pp_char_count = 60,
       pp_is_degraded = True, pp_empty = False, pp_propagated = Some True\<rparr>,
      \<lparr>pp_page_number = 2, pp_readability_score = 55, pp_noise_level = Low,
       pp_word_garbage_score = 0, pp_quality_tier = TierC, pp_char_count = 60,
       pp_is_degraded = True, pp_empty = False, pp_propagated = Some True\<rparr>,
      \<lparr>pp_page_number = 3, pp_readability_score = 75, pp_noise_level = Low,
       pp_word_garbage_score = 0, pp_quality_tier = TierB, pp_char_count = 74,
       pp_is_degraded = True, pp_empty = False, pp_propagated = Some True\<rparr>]
   \<and> profilePages (\<lambda>t. t) (\<lambda>t ws. 0)
     [sample_page 1 sample_clean_text, sample_page 2 sample_degraded_text,
      sample_page 3 sample_clean_text] =
     [\<lparr>pp_page_number = 1, pp_readability_score = 75, pp_noise_level = Low,
       pp_word_garbage_score = 0, pp_quality_tier = TierB, pp_char_count = 74,
       pp_is_degraded = False, pp_empty = False, pp_propagated = None\<rparr>,
      \<lparr>pp_page_number = 2, pp_readability_score = 55, pp_noise_level = Low,
       pp_word_garbage_score = 0, pp_quality_tier = TierC, pp_char_count = 60,
       pp_is_degraded = True, pp_empty = False, pp_propagated = None\<rparr>,
      \<lparr>pp_page_number = 3, pp_readability_score = 75, pp_noise_level = Low,
       pp_word_garbage_score = 0, pp_quality_tier = TierB, pp_char_count = 74,
       pp_is_degraded = False, pp_empty = False, pp_propagated = None\<rparr>]"
  using propagation_by_majority [of "\<lambda>t. t" "\<lambda>t ws. 0"
      "[sample_page 1 sample_degraded_text, sample_page 2 sample_degraded_text,
        sample_page 3 sample_clean_text]"]
    propagation_by_majority [of "\<lambda>t. t" "\<lambda>t ws. 0"
      "[sample_page 1 sample_clean_text, sample_page 2 sample_degraded_text,
        sample_page 3 sample_clean_text]"]
  by (simp add: profile_sample_degraded profile_sample_clean)

theorem propagated_on_degraded_page_counterexample:
  "pp_is_degraded (map (profilePage (\<lambda>t. t) (\<lambda>t ws. 0))
       [sample_page 1 sample_degraded_text, sample_page 2 sample_degraded_text,
        sample_page 3 sample_clean_text] ! 0)
   \<and> pp_propagated (profilePages (\<lambda>t. t) (\<lambda>t ws. 0)
       [sample_page 1 sample_degraded_text, sample_page 2 sample_degraded_text,
        sample_page 3 sample_clean_text] ! 0) = Some True"
  unfolding profilePages_def propagateDegraded_def Let_def
  by (simp add: profile_sample_degraded profile_sample_clean)

lemma propagation_at_exactly_half:
  "profilePages (\<lambda>t. t) (\<lambda>t ws. 0)
     [sample_page 1 sample_degraded_text, sample_page 2 sample_clean_text] =
   map (profilePage (\<lambda>t. t) (\<lambda>t ws. 0))
     [sample_page 1 sample_degraded_text, sample_page 2 sample_clean_text]"
  unfolding profilePages_def propagateDegraded_def Let_def
  by (simp add: profile_sample_degraded profile_sample_clean)


section \<open>The aggregated readability\<close>

lemma length_filter_sort: "length (filter P (sort xs)) = length (filter P xs)"
  by (simp add: filter_sort)

lemma length_filter_take_le: "length (filter P (take k ys)) \<le> length (filter P ys)"
proof -
  have "length (filter P ys) = length (filter P (take k ys)) + length (filter P (drop k ys))"
    by (metis append_take_drop_id filter_append length_append)
  then show ?thesis by simp
qed

lemma length_filter_drop_le: "length (filter P (drop k ys)) \<le> length (filter P ys)"
proof -
  have "length (filter P ys) = length (filter P (take k ys)) + length (filter P (drop k ys))"
    by (metis append_take_drop_id filter_append length_append)
  then show ?thesis by simp
qed

lemma upper_median_counts:
  fixes xs :: "nat list"
  assumes "xs \<noteq> []"
  shows "length xs < 2 * length (filter (\<lambda>s. s \<le> sort xs ! (length xs div 2)) xs)"
    and "length xs \<le> 2 * length (filter (\<lambda>s. sort xs ! (length xs div 2) \<le> s) xs)"
proof -
  define ys where "ys = sort xs"
  define k where "k = length xs div 2"
  have len: "length ys = length xs" and srt: "sorted ys"
    by (simp_all add: ys_def)
  have k: "k < length ys"
    using assms len by (simp add: k_def)
  have low: "filter (\<lambda>s. s \<le> ys ! k) (take (Suc k) ys) = take (Suc k) ys"
  proof (rule filter_True, clarify)
    fix x assume "x \<in> set (take (Suc k) ys)"
    then obtain i where "i < Suc k" "i < length ys" "x = ys ! i"
      by (auto simp: in_set_conv_nth)
    then show "x \<le> ys ! k"
      using sorted_nth_mono [OF srt, of i k] k by simp
  qed
  have high: "filter (\<lambda>s. ys ! k \<le> s) (drop k ys) = drop k ys"
  proof (rule filter_True, clarify)
    fix x assume "x \<in> set (drop k ys)"
    then obtain i where "i < length ys - k" "x = ys ! (k + i)"
      by (auto simp: in_set_conv_nth)
    then show "ys ! k \<le> x"
      using sorted_nth_mono [OF srt, of k "k + i"] by simp
  qed
  have A: "Suc k \<le> length (filter (\<lambda>s. s \<le> ys ! k) ys)"
    using length_filter_take_le [of "\<lambda>s. s \<le> ys ! k" "Suc k" ys] k by (simp add: low)
  have B: "length ys - k \<le> length (filter (\<lambda>s. ys ! k \<le> s) ys)"
    using length_filter_drop_le [of "\<lambda>s. ys ! k \<le> s" k ys] by (simp add: high)
  have A': "Suc (length xs div 2)
      \<le> length (filter (\<lambda>s. s \<le> sort xs ! (length xs div 2)) xs)"
    using A unfolding ys_def k_def by (simp only: length_filter_sort)
  have B': "length xs - length xs div 2
      \<le> length (filter (\<lambda>s. sort xs ! (length xs div 2) \<le> s) xs)"
    using B unfolding ys_def k_def by (simp only: length_filter_sort length_sort)
  show "length xs < 2 * length (filter (\<lambda>s. s \<le> sort xs ! (length xs div 2)) xs)"
    using A' by linarith
  show "length xs \<le> 2 * length (filter (\<lambda>s. sort xs ! (length xs div 2) \<le> s) xs)"
    using B' by linarith
qed

lemma upper_median_member:
  fixes xs :: "nat list"
  assumes "xs \<noteq> []"
  shows "sort xs ! (length xs div 2) \<in> set xs"
proof -
  have "length xs div 2 < length (sort xs)"
    using assms by simp
  then have "sort xs ! (length xs div 2) \<in> set (sort xs)"
    by (rule nth_mem)
  then show ?thesis by simp
qed

text \<open>
  C5, as the code has it. For a non-empty list of page profiles the aggregated
  readability is the element at index \<open>n div 2\<close> of the ascending scores, the upper
  median: it is one of the page scores, more than half of the scores are at most it and
  at least half are at least it, and it is the statistical median when the number of
  pages is odd. The quality tier is derived from it by the A/B/C/D/F thresholds.
\<close>

theorem aggregate_upper_median:
  assumes "pageProfiles \<noteq> []"
  shows "dp_readability_score (aggregatePageProfiles pageProfiles file path) =
           sort (map pp_readability_score pageProfiles) ! (length pageProfiles div 2)
    \<and> dp_readability_score (aggregatePageProfiles pageProfiles file path)
         \<in> set (map pp_readability_score pageProfiles)
    \<and> length pageProfiles
         < 2 * length (filter (\<lambda>s. s \<le> dp_readability_score
               (aggregatePageProfiles pageProfiles file path))
             (map pp_readability_score pageProfiles))
    \<and> length pageProfiles
         \<le> 2 * length (filter (\<lambda>s. dp_readability_score
               (aggregatePageProfiles pageProfiles file path) \<le> s)
             (map pp_readability_score pageProfiles))
    \<and> (odd (length pageProfiles) \<longrightarrow>
         statistical_median (map pp_readability_score pageProfiles) =
           of_nat (dp_readability_score (aggregatePageProfiles pageProfiles file path)))
    \<and> dp_quality_tier (aggregatePageProfiles pageProfiles file path) =
         getQualityTier (dp_readability_score (aggregatePageProfiles pageProfiles file path))"
proof -
  let ?xs = "map pp_readability_score pageProfiles"
  have ne: "?xs \<noteq> []" using assms by simp
  have m: "dp_readability_score (aggregatePageProfiles pageProfiles file path) =
      sort ?xs ! (length ?xs div 2)"
    using assms by (simp add: aggregatePageProfiles_def Let_def)
  have t: "dp_quality_tier (aggregatePageProfiles pageProfiles file path) =
      getQualityTier (sort ?xs ! (length ?xs div 2))"
    using assms by (simp add: aggregatePageProfiles_def Let_def)
  show ?thesis
    unfolding m t
    using upper_median_counts [OF ne] upper_median_member [OF ne]
    by (simp add: statistical_median_def Let_def)
qed

theorem aggregate_upper_median_witness:
  "dp_readability_score (aggregatePageProfiles
      [\<lparr>pp_page_number = 1, pp_readability_score = 20, pp_noise_level = Low,
        pp_word_garbage_score = 0, pp_quality_tier = TierD, pp_char_count = 900,
        pp_is_degraded = True, pp_empty = False, pp_propagated = None\<rparr>,
       \<lparr>pp_page_number = 2, pp_readability_score = 90, pp_noise_level = Low,
        pp_word_garbage_score = 0, pp_quality_tier = TierA, pp_char_count = 900,
        pp_is_degraded = False, pp_empty = False, pp_propagated = None\<rparr>,
       \<lparr>pp_page_number = 3, pp_readability_score = 70, pp_noise_level = Low,
        pp_word_garbage_score = 0, pp_quality_tier = TierB, pp_char_count = 900,
        pp_is_degraded = False, pp_empty = False, pp_propagated = None\<rparr>]
      ''a.pdf'' ''/in/a.pdf'') = 70
   \<and> statistical_median [20, 90, 70] = 70"
  using aggregate_upper_median [of
      "[\<lparr>pp_page_number = 1, pp_readability_score = 20, pp_noise_level = Low,
        pp_word_garbage_score = 0, pp_quality_tier = TierD, pp_char_count = 900,
        pp_is_degraded = True, pp_empty = False, pp_propagated = None\<rparr>,
       \<lparr>pp_page_number = 2, pp_readability_score = 90, pp_noise_level = Low,
        pp_word_garbage_score = 0, pp_quality_tier = TierA, pp_char_count = 900,
        pp_is_degraded = False, pp_empty = False, pp_propagated = None\<rparr>,
       \<lparr>pp_page_number = 3, pp_readability_score = 70, pp_noise_level = Low,
        pp_word_garbage_score = 0, pp_quality_tier = TierB, pp_char_count = 900,
        pp_is_degraded = False, pp_empty = False, pp_propagated = None\<rparr>]"
      "''a.pdf''" "''/in/a.pdf''"]
  by simp

theorem median_even_counterexample:
  "dp_readability_score (aggregatePageProfiles
      [\<lparr>pp_page_number = 1, pp_readability_score = 20, pp_noise_level = Low,
        pp_word_garbage_score = 0, pp_quality_tier = TierD, pp_char_count = 900,
        pp_is_degraded = True, pp_empty = False, pp_propagated = None\<rparr>,
       \<lparr>pp_page_number = 2, pp_readability_score = 80, pp_noise_level = Low,
        pp_word_garbage_score = 0, pp_quality_tier = TierA, pp_char_count = 900,
        pp_is_degraded = False, pp_empty = False, pp_propagated = None\<rparr>]
      ''a.pdf'' ''/in/a.pdf'') = 80
   \<and> statistical_median [20, 80] = 50
   \<and> dp_quality_tier (aggregatePageProfiles
      [\<lparr>pp_page_number = 1, pp_readability_score = 20, pp_noise_level = Low,
        pp_word_garbage_score = 0, pp_quality_tier = TierD, pp_char_count = 900,
        pp_is_degraded = True, pp_empty = False, pp_propagated = None\<rparr>,
       \<lparr>pp_page_number = 2, pp_readability_score = 80, pp_noise_level = Low,
        pp_word_garbage_score = 0, pp_quality_tier = TierA, pp_char_count = 900,
        pp_is_degraded = False, pp_empty = False, pp_propagated = None\<rparr>]
      ''a.pdf'' ''/in/a.pdf'') = TierA
   \<and> getQualityTier 50 = TierC"
  by (simp add: aggregatePageProfiles_def statistical_median_def getQualityTier_def Let_def)


section \<open>Resuming from an invalid checkpoint\<close>








section \<open>QC counters in the reports\<close>

lemma foldl_add_sum:
  fixes f :: "'a \<Rightarrow> nat"
  shows "foldl (\<lambda>sum q. sum + f q) a qs = a + sum_list (map f qs)"
  by (induction qs arbitrary: a) simp_all

text \<open>
  C2, as the code has it. The QC summary that stage 6 of \<open>runPipeline\<close> builds is the
  counter-wise sum over all QC results of the run, and \<open>generateReport\<close> stores exactly
  that summary in the pipeline report. The batch report sums the segment totals only:
  its \<open>pdfs\<close> array lists, for each report in order, that report's own \<open>qc_passed\<close>,
  \<open>qc_flagged\<close> and \<open>qc_rejected\<close>.
\<close>

theorem qc_merge_additive:
  "passed (mergeQcResults qs) = sum_list (map passed qs)
   \<and> flagged (mergeQcResults qs) = sum_list (map flagged qs)
   \<and> rejected (mergeQcResults qs) = sum_list (map rejected qs)
   \<and> mislabels_caught (mergeQcResults qs) = sum_list (map mislabels_caught qs)
   \<and> rp_qc (generateReport source duration counts (Some (mergeQcResults qs))) = mergeQcResults qs
   \<and> jget ''pdfs'' (generateBatchReport reports now totalDuration) = Some (JArr (map batchPdfEntry reports))
   \<and> jget ''total_segments'' (generateBatchReport reports now totalDuration)
        = Some (JNum (int (sum_list (map rp_total_segments reports))))"
  by (simp add: mergeQcResults_def generateReport_def generateBatchReport_def foldl_add_sum)

theorem qc_merge_additive_witness:
  "mergeQcResults
     [\<lparr>passed = 3, flagged = 1, rejected = 0, mislabels_caught = 0\<rparr>,
      \<lparr>passed = 2, flagged = 0, rejected = 1, mislabels_caught = 1\<rparr>,
      \<lparr>passed = 5, flagged = 2, rejected = 0, mislabels_caught = 0\<rparr>]
   = \<lparr>passed = 10, flagged = 3, rejected = 1, mislabels_caught = 1\<rparr>"
  using qc_merge_additive
    [of "[\<lparr>passed = 3, flagged = 1, rejected = 0, mislabels_caught = 0\<rparr>,
          \<lparr>passed = 2, flagged = 0, rejected = 1, mislabels_caught = 1\<rparr>,
          \<lparr>passed = 5, flagged = 2, rejected = 0, mislabels_caught = 0\<rparr>]"
        "''a.pdf''" 0 "[]" "[]" "''now''" 0]
  by (cases "mergeQcResults
     [\<lparr>passed = 3, flagged = 1, rejected = 0, mislabels_caught = 0\<rparr>,
      \<lparr>passed = 2, flagged = 0, rejected = 1, mislabels_caught = 1\<rparr>,
      \<lparr>passed = 5, flagged = 2, rejected = 0, mislabels_caught = 0\<rparr>]") simp


text \<open>
  The three QC results of scenario E4, each in the report of one PDF. The batch report
  has none of the fields \<open>summary\<close>, \<open>passed\<close>, \<open>flagged\<close>, \<open>rejected\<close>,
  \<open>mislabels_caught\<close>; its keys are the seven listed.
\<close>

theorem batch_report_counters_counterexample:
  "jget ''summary''
     (generateBatchReport
        [generateReport ''a.pdf'' 10 [4]
           (Some \<lparr>passed = 3, flagged = 1, rejected = 0, mislabels_caught = 0\<rparr>),
         generateReport ''b.pdf'' 10 [3]
           (Some \<lparr>passed = 2, flagged = 0, rejected = 1, mislabels_caught = 1\<rparr>),
         generateReport ''c.pdf'' 10 [7]
           (Some \<lparr>passed = 5, flagged = 2, rejected = 0, mislabels_caught = 0\<rparr>)]
        ''2026-02-16T00:00:00.000Z'' 30) = None
   \<and> jget ''passed''
     (generateBatchReport
        [generateReport ''a.pdf'' 10 [4]
           (Some \<lparr>passed = 3, flagged = 1, rejected = 0, mislabels_caught = 0\<rparr>),
         generateReport ''b.pdf'' 10 [3]
           (Some \<lparr>passed = 2, flagged = 0, rejected = 1, mislabels_caught = 1\<rparr>),
         generateReport ''c.pdf'' 10 [7]
           (Some \<lparr>passed = 5, flagged = 2, rejected = 0, mislabels_caught = 0\<rparr>)]
        ''2026-02-16T00:00:00.000Z'' 30) = None
   \<and> jget ''mislabels_caught''
     (generateBatchReport
        [generateReport ''a.pdf'' 10 [4]
           (Some \<lparr>passed = 3, flagged = 1, rejected = 0, mislabels_caught = 0\<rparr>),
         generateReport ''b.pdf'' 10 [3]
           (Some \<lparr>passed = 2, flagged = 0, rejected = 1, mislabels_caught = 1\<rparr>),
         generateReport ''c.pdf'' 10 [7]
           (Some \<lparr>passed = 5, flagged = 2, rejected = 0, mislabels_caught = 0\<rparr>)]
        ''2026-02-16T00:00:00.000Z'' 30) = None
   \<and> (case generateBatchReport
        [generateReport ''a.pdf'' 10 [4]
           (Some \<lparr>passed = 3, flagged = 1, rejected = 0, mislabels_caught = 0\<rparr>),
         generateReport ''b.pdf'' 10 [3]
           (Some \<lparr>passed = 2, flagged = 0, rejected = 1, mislabels_caught = 1\<rparr>),
         generateReport ''c.pdf'' 10 [7]
           (Some \<lparr>passed = 5, flagged = 2, rejected = 0, mislabels_caught = 0\<rparr>)]
        ''2026-02-16T00:00:00.000Z'' 30 of JObj kvs \<Rightarrow> map fst kvs | _ \<Rightarrow> [])
      = [''pipeline_version'', ''completed_at'', ''total_duration_ms'', ''total_pdfs'',
         ''total_segments'', ''review_needed'', ''pdfs'']"
  by (simp add: generateBatchReport_def)


section \<open>Order of the files in the manifest\<close>

lemma scanDirectory_flat:
  "scanDirectory recursive dir (map FileEnt names) =
     map (path_join dir) (filter (\<lambda>f. endsWith (toLowerCase f) ''.pdf'') names)"
  by (induction names) simp_all

text \<open>
  C3 at a concrete directory. The directory \<open>/in\<close> lists \<open>b.pdf\<close> before \<open>a.pdf\<close>. The
  manifest of \<open>ingest\<close> registers the two files in that order, which is not sorted, while
  \<open>detectSource\<close> of the orchestrator sorts the same listing.
\<close>

theorem ingest_keeps_listing_order:
  "(case ingest sample_probe ''2026-02-16T00:00:00.000Z'' True True Map.empty
           (SrcDir ''/in'' [FileEnt ''b.pdf'', FileEnt ''a.pdf'']) of
      Inr (m, db) \<Rightarrow> map sf_source_path (m_files m)
    | Inl e \<Rightarrow> []) = [''/in/b.pdf'', ''/in/a.pdf'']
   \<and> \<not> sorted [''/in/b.pdf'', ''/in/a.pdf'']
   \<and> detectSourceDir ''/in'' [''b.pdf'', ''a.pdf''] = Inr [''/in/a.pdf'', ''/in/b.pdf'']"
  by (simp add: ingest_def ingestFile_def sample_probe_def endsWith_def toLowerCase_def
      path_join_def basename_def detectSourceDir_def Let_def)


section \<open>Markdown file names\<close>

lemma below_ten:
  assumes "d < (10::nat)"
  shows "d \<in> {0, 1, 2, 3, 4, 5, 6, 7, 8, 9}"
  using assms by auto

lemma of_char_digit_char: "d < 10 \<Longrightarrow> (of_char (digit_char d) :: nat) = 48 + d"
  using below_ten [of d] by (auto simp: digit_char_def)

lemma isDigit_digit_char: "d < 10 \<Longrightarrow> isDigit (digit_char d)"
  by (simp add: isDigit_def of_char_digit_char)

lemma show_nat_digits: "list_all isDigit (show_nat n)"
proof (induction n rule: show_nat.induct)
  case (1 n)
  show ?case
  proof (cases "n < 10")
    case True
    then show ?thesis by (subst show_nat.simps) (simp add: isDigit_digit_char)
  next
    case False
    then show ?thesis
      using "1.IH" by (subst show_nat.simps) (simp add: isDigit_digit_char)
  qed
qed

lemma show_nat_nonempty: "show_nat n \<noteq> []"
  by (subst show_nat.simps) simp

lemma show_nat_length: "n < 1000 \<Longrightarrow> length (show_nat n) \<le> 3"
proof -
  assume n: "n < 1000"
  have one: "\<And>k. k < 10 \<Longrightarrow> length (show_nat k) = 1"
    by (subst show_nat.simps) simp
  have two: "\<And>k. k < 100 \<Longrightarrow> length (show_nat k) \<le> 2"
  proof -
    fix k :: nat assume "k < 100"
    then show "length (show_nat k) \<le> 2"
      by (subst show_nat.simps) (auto simp: one)
  qed
  show ?thesis
  proof (cases "n < 10")
    case True
    then show ?thesis by (simp add: one)
  next
    case False
    have "n div 10 < 100" using n by simp
    then have "length (show_nat (n div 10)) \<le> 2" by (rule two)
    then show ?thesis using False by (subst show_nat.simps) simp
  qed
qed

lemma read_nat_snoc: "read_nat (s @ [c]) = 10 * read_nat s + ((of_char c :: nat) - 48)"
  by (simp add: read_nat_def)

lemma read_show_nat: "read_nat (show_nat n) = n"
proof (induction n rule: show_nat.induct)
  case (1 n)
  show ?case
  proof (cases "n < 10")
    case True
    then show ?thesis
      by (subst show_nat.simps) (simp add: read_nat_def of_char_digit_char)
  next
    case False
    then have "read_nat (show_nat (n div 10)) = n div 10"
      using "1.IH" by simp
    then show ?thesis
      using False by (subst show_nat.simps) (simp add: read_nat_snoc of_char_digit_char)
  qed
qed

lemma read_nat_zeros: "foldl (\<lambda>a c. 10 * a + ((of_char c :: nat) - 48)) 0 (replicate k CHR ''0'') = 0"
  by (induction k) simp_all

lemma read_nat_padStart3: "read_nat (padStart3 s) = read_nat s"
  by (simp add: read_nat_def padStart3_def read_nat_zeros)

lemma padStart3_digits: "list_all isDigit s \<Longrightarrow> list_all isDigit (padStart3 s)"
  by (auto simp: padStart3_def list_all_iff isDigit_def)

lemma takeWhile_digits:
  assumes "list_all isDigit num"
  shows "takeWhile (\<lambda>c. c \<noteq> CHR ''-'') (num @ CHR ''-'' # rest) = num"
proof -
  have "\<forall>c \<in> set num. c \<noteq> CHR ''-''"
    using assms by (auto simp: list_all_iff isDigit_def)
  then show ?thesis by (simp add: takeWhile_append2)
qed

lemma generateFilename_index:
  "read_nat (takeWhile (\<lambda>c. c \<noteq> CHR ''-'') (generateFilename seg i)) = i + 1"
proof -
  have d: "list_all isDigit (padStart3 (show_nat (i + 1)))"
    by (simp add: padStart3_digits show_nat_digits)
  show ?thesis
    unfolding generateFilename_def Let_def
    using takeWhile_digits [OF d] by (simp add: read_nat_padStart3 read_show_nat)
qed

lemma exportAllNames_distinct: "distinct (exportAllNames segments)"
proof -
  have "inj_on (\<lambda>i. generateFilename (segments ! i) i) (set [0 ..< length segments])"
  proof (rule inj_onI)
    fix i j
    assume "generateFilename (segments ! i) i = generateFilename (segments ! j) j"
    then have "read_nat (takeWhile (\<lambda>c. c \<noteq> CHR ''-'') (generateFilename (segments ! i) i))
        = read_nat (takeWhile (\<lambda>c. c \<noteq> CHR ''-'') (generateFilename (segments ! j) j))"
      by simp
    then show "i = j" by (simp add: generateFilename_index)
  qed
  then show ?thesis
    by (simp add: exportAllNames_def distinct_map)
qed

lemma padStart3_length:
  assumes "s \<noteq> []" and "length s \<le> 3"
  shows "length (padStart3 s) = 3"
  using assms by (simp add: padStart3_def)

lemma md_name_ok_parts:
  assumes "length num = 3" and "list_all isDigit num"
    and "t \<noteq> []" and "list_all lowerHyphen t"
    and "d \<noteq> []" and "list_all lowerHyphen d"
  shows "md_name_ok (num @ ''-'' @ t @ ''-'' @ d @ ''.md'')"
proof -
  let ?s = "num @ ''-'' @ t @ ''-'' @ d @ ''.md''"
  have len: "length ?s = length t + length d + 8"
    using assms(1) by simp
  have take_all: "take (length ?s - 3) ?s = num @ ''-'' @ t @ ''-'' @ d"
    using assms(1) by simp
  have mid: "drop 4 (take (length ?s - 3) ?s) = t @ CHR ''-'' # d"
    unfolding take_all using assms(1) by simp
  have suf: "drop (length ?s - 3) ?s = ''.md''"
    using assms(1) by simp
  have hy: "CHR ''-'' \<in> set (butlast (tl (t @ CHR ''-'' # d)))"
    using assms(3,5) by (cases t) (simp_all add: butlast_append)
  have lh: "list_all lowerHyphen (t @ CHR ''-'' # d)"
    using assms(4,6) by (simp add: lowerHyphen_def)
  have three: "?s ! 3 = CHR ''-''"
    using assms(1) by (simp add: nth_append)
  show ?thesis
    unfolding md_name_ok_def Let_def mid suf
    using len assms(1,2) hy lh three by simp
qed

lemma valid_types_lower:
  "list_all (\<lambda>t. t = ''decisao-admin-1inst'' \<or> (t \<noteq> [] \<and> list_all lowerHyphen t)) VALID_TYPES"
  unfolding VALID_TYPES_def by (simp add: lowerHyphen_def)

lemma segment_types_lower:
  "list_all (\<lambda>t. t \<noteq> [] \<and> list_all lowerHyphen t)
     [''piece'', ''attachment'', ''exhibit'', ''cover'', ''separator'']"
  by (simp add: lowerHyphen_def)

text \<open>
  C9, as the code has it. The file names written by \<open>exportAll\<close> are pairwise distinct,
  for every segment list. A name matches the regular expression of the specification
  when the segment is one of the first 999, its type is one of the five segment types (or
  missing, which gives \<open>piece\<close>) and its \<open>doc_type\<close> is in \<open>VALID_TYPES\<close> and is not
  \<open>decisao-admin-1inst\<close>.
\<close>

theorem markdown_filenames:
  "distinct (exportAllNames segments)
   \<and> (\<forall>i < length segments.
        i < 999
        \<and> seg_type (segments ! i) \<in> set [[], ''piece'', ''attachment'', ''exhibit'', ''cover'', ''separator'']
        \<and> doc_type (segments ! i) \<in> set VALID_TYPES
        \<and> doc_type (segments ! i) \<noteq> ''decisao-admin-1inst''
        \<longrightarrow> md_name_ok (exportAllNames segments ! i))"
proof (intro conjI allI impI)
  show "distinct (exportAllNames segments)" by (rule exportAllNames_distinct)
next
  fix i
  assume i: "i < length segments"
  assume h: "i < 999
        \<and> seg_type (segments ! i) \<in> set [[], ''piece'', ''attachment'', ''exhibit'', ''cover'', ''separator'']
        \<and> doc_type (segments ! i) \<in> set VALID_TYPES
        \<and> doc_type (segments ! i) \<noteq> ''decisao-admin-1inst''"
  let ?seg = "segments ! i"
  let ?t = "if seg_type ?seg = [] then ''piece'' else seg_type ?seg"
  let ?d = "if doc_type ?seg = [] then ''unknown'' else doc_type ?seg"
  have num: "length (padStart3 (show_nat (i + 1))) = 3"
    "list_all isDigit (padStart3 (show_nat (i + 1)))"
    using h show_nat_length [of "i + 1"]
    by (simp_all add: padStart3_length show_nat_nonempty padStart3_digits show_nat_digits)
  have t: "?t \<noteq> [] \<and> list_all lowerHyphen ?t"
    using h segment_types_lower by (auto simp: lowerHyphen_def)
  have "doc_type ?seg \<noteq> [] \<and> list_all lowerHyphen (doc_type ?seg)"
    using h valid_types_lower unfolding list_all_iff by blast
  then have d: "?d \<noteq> [] \<and> list_all lowerHyphen ?d" by simp
  have "md_name_ok (generateFilename ?seg i)"
    unfolding generateFilename_def Let_def
    using md_name_ok_parts [OF num] t d by blast
  then show "md_name_ok (exportAllNames segments ! i)"
    using i by (simp add: exportAllNames_def)
qed

lemma show_nat_1: "show_nat (Suc 0) = ''1''"
  by (subst show_nat.simps) (simp add: digit_char_def)

lemma show_nat_1000: "show_nat 1000 = ''1000''"
  by (simp add: show_nat.simps [of 1000] show_nat.simps [of 100] show_nat.simps [of 10]
      show_nat_1 digit_char_def)

theorem markdown_filenames_witness:
  "exportAllNames [sample_segment ''piece'' ''sentenca'' 1 3] = [''001-piece-sentenca.md'']
   \<and> md_name_ok ''001-piece-sentenca.md''"
proof -
  have n: "exportAllNames [sample_segment ''piece'' ''sentenca'' 1 3] = [''001-piece-sentenca.md'']"
    by (simp add: exportAllNames_def generateFilename_def sample_segment_def padStart3_def
        show_nat_1 Let_def numeral_2_eq_2)
  have "md_name_ok (exportAllNames [sample_segment ''piece'' ''sentenca'' 1 3] ! 0)"
    using markdown_filenames [of "[sample_segment ''piece'' ''sentenca'' 1 3]"]
    by (simp add: sample_segment_def VALID_TYPES_def)
  then show ?thesis using n by simp
qed

theorem filename_regex_counterexample:
  "''decisao-admin-1inst'' \<in> set VALID_TYPES
   \<and> exportAllNames [sample_segment ''piece'' ''decisao-admin-1inst'' 1 3]
       = [''001-piece-decisao-admin-1inst.md'']
   \<and> \<not> md_name_ok ''001-piece-decisao-admin-1inst.md''
   \<and> generateFilename (sample_segment ''piece'' ''sentenca'' 1 3) 999 = ''1000-piece-sentenca.md''
   \<and> \<not> md_name_ok ''1000-piece-sentenca.md''"
  by (simp add: VALID_TYPES_def exportAllNames_def generateFilename_def sample_segment_def
      padStart3_def show_nat_1 show_nat_1000 Let_def md_name_ok_def lowerHyphen_def isDigit_def
      numeral_2_eq_2)


section \<open>Blank pages in the segmenter\<close>

lemma segmentPage_opens_or_extends:
  "currentSegment (segmentPage sp rt pn cls st pg) \<noteq> None"
  by (cases "currentSegment st") (auto simp: segmentPage_def Let_def)

lemma foldl_segmentPage_current:
  assumes "pages \<noteq> []"
  shows "currentSegment (foldl (segmentPage sp rt pn cls) st pages) \<noteq> None"
  using assms
proof (cases pages rule: rev_cases)
  case Nil
  with assms show ?thesis by simp
next
  case (snoc qs q)
  then show ?thesis by (simp add: segmentPage_opens_or_extends)
qed

lemma blank_page_extends:
  assumes "blankOnly sp rt pg" and "currentSegment st = Some cur"
  shows "closed_segments (segmentPage sp rt pn cls st pg) = closed_segments st"
    and "currentSegment (segmentPage sp rt pn cls st pg) = Some (cur\<lparr>page_end := page_number pg\<rparr>)"
    and "segmentCounter (segmentPage sp rt pn cls st pg) = segmentCounter st"
  using assms by (auto simp: segmentPage_def blankOnly_def Let_def)

text \<open>
  C7, as the code has it. A page that is not the first page of the document, whose
  cleaned text is shorter than 30 characters and which has no marker of weight at least
  0.7 other than \<open>blank-page\<close>, opens no segment: the segments of the document up to and
  including that page are the segments up to the page before, with the \<open>page_end\<close> of
  the last one moved to the blank page.
\<close>

theorem blank_page_absorbed:
  assumes "pages \<noteq> []" and "blankOnly sp rt pg"
  shows "segment sp rt pn (pages @ [pg]) cls =
           butlast (segment sp rt pn pages cls)
           @ [(last (segment sp rt pn pages cls))\<lparr>page_end := page_number pg\<rparr>]
    \<and> length (segment sp rt pn (pages @ [pg]) cls) = length (segment sp rt pn pages cls)"
proof -
  define st where "st = foldl (segmentPage sp rt pn cls) segmenterInit pages"
  obtain cur where cur: "currentSegment st = Some cur"
    using foldl_segmentPage_current [OF assms(1), of sp rt pn cls segmenterInit]
    unfolding st_def by auto
  have before: "segment sp rt pn pages cls = closed_segments st @ [cur]"
    using assms(1) cur by (simp add: segment_def closeLast_def st_def)
  have after: "segment sp rt pn (pages @ [pg]) cls =
      closed_segments st @ [cur\<lparr>page_end := page_number pg\<rparr>]"
    using blank_page_extends [OF assms(2) cur, of pn cls]
    by (simp add: segment_def closeLast_def st_def [symmetric])
  show ?thesis
    unfolding before after by simp
qed

theorem blank_page_absorbed_witness:
  "segment (\<lambda>t. t) (\<lambda>r t. False) (\<lambda>t e. None)
     [sample_page 1 sample_clean_text, sample_page 2 []] None =
     [\<lparr>segment_id = ''seg-001'', seg_type = ''piece'', doc_type = ''unknown'',
       classification_source = ''boundary-rules'', page_start = 1, page_end = 2,
       seg_confidence = 1 / 2, boundary_markers = [],
       classification_confidence = None, classification_indicators = None,
       l2_previous_type = None, l2_boost = None, l2_reasons = None, cascade_level = None\<rparr>]"
proof -
  have one: "segment (\<lambda>t. t) (\<lambda>r t. False) (\<lambda>t e. None) [sample_page 1 sample_clean_text] None =
     [\<lparr>segment_id = ''seg-001'', seg_type = ''piece'', doc_type = ''unknown'',
       classification_source = ''boundary-rules'', page_start = 1, page_end = 1,
       seg_confidence = 1 / 2, boundary_markers = [],
       classification_confidence = None, classification_indicators = None,
       l2_previous_type = None, l2_boost = None, l2_reasons = None, cascade_level = None\<rparr>]"
    by (simp add: segment_def segmentPage_def segmenterInit_def closeLast_def detectBoundaries_def
        inferSegmentType_def profilerFallback_def sample_page_def sample_clean_facts Let_def
        padStart3_def show_nat_1 numeral_2_eq_2)
  have blank: "blankOnly (\<lambda>t. t) (\<lambda>r t. False) (sample_page 2 [])"
    by (simp add: blankOnly_def detectBoundaries_def sample_page_def Let_def)
  have "segment (\<lambda>t. t) (\<lambda>r t. False) (\<lambda>t e. None)
      ([sample_page 1 sample_clean_text] @ [sample_page 2 []]) None =
      butlast (segment (\<lambda>t. t) (\<lambda>r t. False) (\<lambda>t e. None) [sample_page 1 sample_clean_text] None)
      @ [(last (segment (\<lambda>t. t) (\<lambda>r t. False) (\<lambda>t e. None)
            [sample_page 1 sample_clean_text] None))\<lparr>page_end := page_number (sample_page 2 [])\<rparr>]"
    using blank_page_absorbed [of "[sample_page 1 sample_clean_text]" "\<lambda>t. t" "\<lambda>r t. False"
        "sample_page 2 []" "\<lambda>t e. None" None] blank
    by blast
  then show ?thesis
    unfolding one by (simp add: sample_page_def)
qed

text \<open>
  A document whose first page is empty. No boundary expression matches the empty
  heading, the cleaned text is empty and there is no paragraph number. The page opens
  segment \<open>seg-001\<close>, of type \<open>separator\<close>.
\<close>

theorem blank_first_page_counterexample:
  "blankOnly (\<lambda>t. t) (\<lambda>r t. False) (sample_page 1 [])
   \<and> segment (\<lambda>t. t) (\<lambda>r t. False) (\<lambda>t e. None) [sample_page 1 []] None =
     [\<lparr>segment_id = ''seg-001'', seg_type = ''separator'', doc_type = ''separator'',
       classification_source = ''boundary-rules'', page_start = 1, page_end = 1,
       seg_confidence = 7 / 10,
       boundary_markers =
         [\<lparr>mk_rule = ''blank-page'', mk_weight = 7 / 10,
           mk_description = ''Blank or near-blank separator page'', mk_page = 1\<rparr>],
       classification_confidence = None, classification_indicators = None,
       l2_previous_type = None, l2_boost = None, l2_reasons = None, cascade_level = None\<rparr>]"
  by (simp add: blankOnly_def segment_def segmentPage_def segmenterInit_def closeLast_def
      detectBoundaries_def inferSegmentType_def profilerFallback_def ruleToType_def
      sample_page_def Let_def padStart3_def show_nat_1 numeral_2_eq_2)


section \<open>Applying stage 5.6 twice\<close>













section \<open>The penalty for entity mentions in the classifier\<close>


lemma round2_lower: "x - 1 / 200 \<le> round2 x"
proof -
  have "x * 100 + 1 / 2 < of_int (js_round (x * 100)) + 1"
    unfolding js_round_def by linarith
  then show ?thesis unfolding round2_def by (simp add: field_simps)
qed

lemma set_setOrder [simp]: "set (setOrder xs) = set xs"
  by (simp add: setOrder_def)


















end
